theory Spec2Isabelle
  imports Complex_Main "HOL-Library.Word" "HOL-Library.Monad_Syntax" "HOL-Library.Log_Nat"
begin

unbundle bit_operations_syntax

section \<open>Oregon Scientific WMR200 communication wrapper (wmr200.c)\<close>

text \<open>
  A shallow embedding of \<^verbatim>\<open>src/wmr200.c\<close>. Every C function keeps its name. The
  \<^verbatim>\<open>wmr200\<close> structure is a record that is passed in and returned updated. What the
  C program does besides returning is written out: a read or write outside an array is
  the value \<open>Fault\<close>, a call of \<^verbatim>\<open>exit(1)\<close> is \<open>Exited\<close> (with the state at that
  moment), a \<^verbatim>\<open>hid_read\<close> that finds no further frame is \<open>Blocked\<close>.

  Numbers. An \<^verbatim>\<open>uchar\<close> is an 8-bit word. In an expression C promotes it to
  \<^verbatim>\<open>int\<close>, so the macros work on \<open>int\<close> and a byte enters them through \<open>uint\<close>.
  An \<^verbatim>\<open>uint_t\<close> is a \<open>nat\<close>, with the 32-bit wrap-around written out where the
  program increments, decrements or accumulates. A \<^verbatim>\<open>double\<close> or a \<^verbatim>\<open>float\<close>
  is the rational number it stands for, and every conversion and every operation rounds
  as IEEE 754 says (see below).
\<close>

subsection \<open>Macros, constants and tables\<close>

type_synonym uchar = "8 word"
type_synonym time_t = int

definition NTH_BIT :: "nat \<Rightarrow> int \<Rightarrow> int" where
  "NTH_BIT n val = (drop_bit n val) AND 1"

definition LOW :: "int \<Rightarrow> int" where
  "LOW b = b AND 0xF"

definition HIGH :: "int \<Rightarrow> int" where
  "HIGH b = LOW (drop_bit 4 b)"

definition HEARTBEAT_INTERVAL_SEC :: nat where
  "HEARTBEAT_INTERVAL_SEC = 30"

text \<open>\<^verbatim>\<open>enum command\<close>\<close>

definition HEARTBEAT :: uchar where "HEARTBEAT = 0xD0"
definition HISTORIC_DATA_NOTIF :: uchar where "HISTORIC_DATA_NOTIF = 0xD1"
definition HISTORIC_DATA :: uchar where "HISTORIC_DATA = 0xD2"
definition REQUEST_HISTORIC_DATA :: uchar where "REQUEST_HISTORIC_DATA = 0xDA"
definition LOGGER_DATA_ERASE :: uchar where "LOGGER_DATA_ERASE = 0xDB"
definition COMMUNICATION_STOP :: uchar where "COMMUNICATION_STOP = 0xDF"

text \<open>\<^verbatim>\<open>enum sign\<close>\<close>

definition SIGN_POSITIVE :: int where "SIGN_POSITIVE = 0x0"
definition SIGN_NEGATIVE :: int where "SIGN_NEGATIVE = 0x8"

text \<open>The flag-to-string arrays.\<close>

definition LEVEL_STRING :: "string list" where
  "LEVEL_STRING = [''ok'', ''low'']"

definition STATUS_STRING :: "string list" where
  "STATUS_STRING = [''ok'', ''failed'']"

definition FORECAST_STRING :: "string list" where
  "FORECAST_STRING =
     [''partly_cloudy-day'', ''rainy'', ''cloudy'',
      ''sunny'', ''clear'', ''snowy'',
      ''partly_cloudy-night'']"

definition WIND_DIR_STRING :: "string list" where
  "WIND_DIR_STRING =
     [''N'', ''NNE'', ''NE'', ''ENE'',
      ''E'', ''ESE'', ''SE'', ''SSE'',
      ''S'', ''SSW'', ''SW'', ''WSW'',
      ''W'', ''WNW'', ''NW'', ''NNW'']"

text \<open>
  Reading an array. \<open>table_get\<close> is \<^verbatim>\<open>TABLE[i]\<close> for one of the string arrays and
  \<open>byte_at\<close> is \<^verbatim>\<open>data[i]\<close> for a byte buffer, promoted to \<^verbatim>\<open>int\<close>. Both give
  \<open>None\<close> where the C expression reads outside the array.
\<close>

definition table_get :: "string list \<Rightarrow> int \<Rightarrow> string option" where
  "table_get tbl i = (if 0 \<le> i \<and> nat i < length tbl then Some (tbl ! nat i) else None)"

definition byte_at :: "uchar list \<Rightarrow> nat \<Rightarrow> int option" where
  "byte_at data i = (if i < length data then Some (uint (data ! i)) else None)"

text \<open>Arithmetic of \<^verbatim>\<open>uint_t\<close> (32 bits, unsigned).\<close>

definition uint_inc :: "nat \<Rightarrow> nat" where
  "uint_inc n = (n + 1) mod 2 ^ 32"

definition uint_dec :: "nat \<Rightarrow> nat" where
  "uint_dec n = (n + 2 ^ 32 - 1) mod 2 ^ 32"

definition uint_add :: "nat \<Rightarrow> nat \<Rightarrow> nat" where
  "uint_add a b = (a + b) mod 2 ^ 32"

text \<open>\<^verbatim>\<open>(uint_t)(-1)\<close>, the failure value of \<^verbatim>\<open>verify_packet\<close>.\<close>

definition UINT_MINUS_ONE :: nat where
  "UINT_MINUS_ONE = 2 ^ 32 - 1"

subsection \<open>Floating point\<close>

text \<open>
  The arithmetic of \<^verbatim>\<open>double\<close> (IEEE 754 binary64) and \<^verbatim>\<open>float\<close> (binary32) with
  the default rounding, to the nearest value and to the even one of two nearest, each
  operation evaluated in the format of its type. A value of either type is a rational
  number. \<open>round_binary p emin x\<close> is the value of the format with \<open>p\<close> significant
  bits and least exponent \<open>emin\<close> that is nearest to \<open>x\<close>: \<open>ilog2\<close> gives the
  exponent \<open>e\<close> with \<open>2 ^ e \<le> \<bar>x\<bar> < 2 ^ (e + 1)\<close>, and \<open>x\<close> is rounded to a multiple
  of \<open>2 ^ (e - p + 1)\<close>. No number of this program comes near the largest finite
  value of a format (every one is below \<open>2 ^ 17\<close>), so overflow to infinity is not
  a case here.
\<close>

definition round_to_even :: "rat \<Rightarrow> int" where
  "round_to_even x =
     (let f = \<lfloor>x\<rfloor>; r = x - of_int f
      in if r < 1 / 2 then f else if 1 / 2 < r then f + 1 else if even f then f else f + 1)"

definition pow2 :: "int \<Rightarrow> rat" where
  "pow2 e = (if 0 \<le> e then 2 ^ nat e else 1 / 2 ^ nat (- e))"

definition ilog2 :: "rat \<Rightarrow> int" where
  "ilog2 x =
     (let (a, b) = quotient_of x; d = bitlen a - bitlen b
      in if pow2 d \<le> x then d else d - 1)"

definition round_binary :: "nat \<Rightarrow> int \<Rightarrow> rat \<Rightarrow> rat" where
  "round_binary p emin x =
     (if x = 0 then 0
      else let e = max (ilog2 \<bar>x\<bar>) emin; q = pow2 (e - int p + 1)
           in of_int (round_to_even (x / q)) * q)"

definition c_double :: "rat \<Rightarrow> rat" where
  "c_double x = round_binary 53 (- 1022) x"

definition c_float :: "rat \<Rightarrow> rat" where
  "c_float x = round_binary 24 (- 126) x"

text \<open>
  The conversions and operations that \<^verbatim>\<open>wmr200.c\<close> uses: an \<^verbatim>\<open>int\<close> operand of a
  \<^verbatim>\<open>double\<close> operation is converted to \<^verbatim>\<open>double\<close>, the quotient or product is a
  \<^verbatim>\<open>double\<close>, and the initialisation of a \<^verbatim>\<open>float\<close> variable converts to
  \<^verbatim>\<open>float\<close>.
\<close>

definition int_to_double :: "int \<Rightarrow> rat" where
  "int_to_double n = c_double (of_int n)"

definition int_to_float :: "int \<Rightarrow> rat" where
  "int_to_float n = c_float (of_int n)"

definition double_div :: "rat \<Rightarrow> rat \<Rightarrow> rat" where
  "double_div x y = c_double (x / y)"

definition double_mul :: "rat \<Rightarrow> rat \<Rightarrow> rat" where
  "double_mul x y = c_double (x * y)"

definition double_to_float :: "rat \<Rightarrow> rat" where
  "double_to_float x = c_float x"

text \<open>The constant \<^verbatim>\<open>0.0254\<close> is the \<^verbatim>\<open>double\<close> nearest to 254 / 10000.\<close>

definition TENTH_OF_INCH :: rat where
  "TENTH_OF_INCH = c_double (254 / 10000)"

subsection \<open>Readings (wmrdata.h)\<close>

text \<open>
  \<^verbatim>\<open>wmrdata.h\<close> is not among the sources. The reading structures below have the
  fields that \<^verbatim>\<open>wmr200.c\<close> initialises, with the types of the local variables it
  initialises them from. A \<^verbatim>\<open>wmr_reading\<close> is a time and a union selected by
  \<^verbatim>\<open>.type\<close>; the constructor of \<open>wmr_payload\<close> is that type tag, and \<open>ZEROED\<close> is
  the content of a slot after the \<^verbatim>\<open>memset\<close> of \<^verbatim>\<open>wmr_open\<close>.
\<close>

record wmr_wind =
  dir :: string
  gust_speed :: rat
  avg_speed :: rat
  chill :: rat

record wmr_rain =
  rate :: rat
  accum_hour :: rat
  accum_24h :: rat
  accum_2007 :: rat

record wmr_uvi =
  index :: int

record wmr_baro =
  pressure :: int
  alt_pressure :: int
  forecast :: string

record wmr_temp =
  humidity :: int
  heat_index :: int
  temp :: rat
  dew_point :: rat
  sensor_id :: int

record wmr_status =
  wind_bat :: string
  temp_bat :: string
  rain_bat :: string
  uv_bat :: string
  wind_sensor :: string
  temp_sensor :: string
  rain_sensor :: string
  uv_sensor :: string
  rtc_signal_level :: string

record wmr_meta =
  num_frames :: nat
  num_bytes :: nat
  num_packets :: nat
  num_failed :: nat
  latest_packet :: time_t
  uptime :: time_t

datatype wmr_payload =
    ZEROED
  | WMR_WIND wmr_wind
  | WMR_RAIN wmr_rain
  | WMR_UVI wmr_uvi
  | WMR_BARO wmr_baro
  | WMR_TEMP wmr_temp
  | WMR_STATUS wmr_status
  | WMR_META wmr_meta

record wmr_reading =
  time :: time_t
  payload :: wmr_payload

text \<open>
  \<^verbatim>\<open>wmr->latest\<close>: one slot for each kind of reading and an array of slots for the
  temperature sensors.
\<close>

record wmr_latest =
  latest_wind :: wmr_reading
  latest_rain :: wmr_reading
  latest_uvi :: wmr_reading
  latest_baro :: wmr_reading
  latest_temp :: "wmr_reading list"
  latest_status :: wmr_reading
  latest_meta :: wmr_reading

subsection \<open>The connection and its environment\<close>

text \<open>\<^verbatim>\<open>struct tm\<close>, as \<^verbatim>\<open>get_reading_time_from_packet\<close> fills it.\<close>

record tm =
  tm_year :: int
  tm_mon :: int
  tm_mday :: int
  tm_hour :: int
  tm_min :: int
  tm_sec :: int
  tm_isdst :: int

text \<open>
  What the program writes besides its own state, in order: log lines and lines on
  \<^verbatim>\<open>stderr\<close> (each one is its format string), the calls of the registered handlers
  (handler and reading) and the allocations.
\<close>

datatype event =
    Log_debug string
  | Log_info string
  | Log_warning string
  | Stderr string
  | Invoke nat wmr_reading
  | Malloc nat
  | Free

text \<open>
  The HID device behind \<^verbatim>\<open>wmr->dev\<close>. \<open>pending\<close> are the results of the
  \<^verbatim>\<open>hid_read\<close> calls to come, each the return value and the bytes received;
  \<open>written\<close> are the frames passed to \<^verbatim>\<open>hid_write\<close> so far and \<open>write_ret k\<close> is
  what the \<open>k\<close>-th call of \<^verbatim>\<open>hid_write\<close> returns.
\<close>

record hid_device =
  pending :: "(int \<times> uchar list) list"
  written :: "uchar list list"
  write_ret :: "nat \<Rightarrow> int"

text \<open>
  \<^verbatim>\<open>struct wmr_handler\<close> is a linked list of callbacks; a callback is known by a
  number and \<open>handler\<close> is the list from its head. The last three fields are the
  environment: the output so far, and the clock, where \<open>clock k\<close> is what the \<open>k\<close>-th
  call of \<^verbatim>\<open>time(NULL)\<close> returns.
\<close>

record wmr200 =
  dev :: hid_device
  handler :: "nat list"
  latest :: wmr_latest
  meta :: wmr_meta
  conn_since :: time_t
  buf :: "uchar list"
  buf_avail :: nat
  buf_pos :: nat
  packet :: "uchar list"
  packet_type :: uchar
  packet_len :: nat
  trace :: "event list"
  clock :: "nat \<Rightarrow> time_t"
  ticks :: nat

text \<open>
  \<^verbatim>\<open>wmr200.h\<close>, \<^verbatim>\<open>wmrdata.h\<close> and \<^verbatim>\<open>common.h\<close> are not among the sources, so the
  constants they define are parameters: the size of a frame, the number of temperature
  slots, and the packet types of the six kinds of reading. \<open>mktime\<close> is the function
  of the C library, which depends on the time zone of the process.
\<close>

record config =
  WMR200_FRAME_SIZE :: nat
  WMR200_MAX_TEMP_SENSORS :: nat
  TYPE_WIND :: uchar
  TYPE_RAIN :: uchar
  TYPE_UVI :: uchar
  TYPE_BARO :: uchar
  TYPE_TEMP :: uchar
  TYPE_STATUS :: uchar
  mktime :: "tm \<Rightarrow> time_t"

datatype fault = OOB_read | OOB_write

datatype 'a result =
    Ok 'a
  | Exited wmr200
  | Blocked wmr200
  | Fault fault

definition then_do :: "'a result \<Rightarrow> ('a \<Rightarrow> 'b result) \<Rightarrow> 'b result" where
  "then_do r f = (case r of Ok x \<Rightarrow> f x | Exited s \<Rightarrow> Exited s
                  | Blocked s \<Rightarrow> Blocked s | Fault e \<Rightarrow> Fault e)"

definition emit :: "event \<Rightarrow> wmr200 \<Rightarrow> wmr200" where
  "emit e wmr = wmr\<lparr>trace := trace wmr @ [e]\<rparr>"

definition log_debug :: "string \<Rightarrow> wmr200 \<Rightarrow> wmr200" where
  "log_debug msg = emit (Log_debug msg)"

definition log_info :: "string \<Rightarrow> wmr200 \<Rightarrow> wmr200" where
  "log_info msg = emit (Log_info msg)"

definition log_warning :: "string \<Rightarrow> wmr200 \<Rightarrow> wmr200" where
  "log_warning msg = emit (Log_warning msg)"

text \<open>\<^verbatim>\<open>time(NULL)\<close>\<close>

definition time_NULL :: "wmr200 \<Rightarrow> time_t \<times> wmr200" where
  "time_NULL wmr = (clock wmr (ticks wmr), wmr\<lparr>ticks := ticks wmr + 1\<rparr>)"

subsection \<open>Sending and receiving data\<close>

text \<open>
  \<^verbatim>\<open>hid_read(dev, buf, n)\<close> stores at most \<open>n\<close> received bytes at the start of
  \<open>buf\<close> and leaves the rest of \<open>buf\<close> as it was.
\<close>

definition hid_read_into :: "nat \<Rightarrow> uchar list \<Rightarrow> uchar list \<Rightarrow> uchar list" where
  "hid_read_into n received b =
     take (length b) (take n received) @ drop (length (take n received)) b"

definition read_byte :: "config \<Rightarrow> wmr200 \<Rightarrow> (uchar \<times> wmr200) result" where
  "read_byte cfg wmr =
     then_do
       (if buf_avail wmr = 0 then
          (case pending (dev wmr) of
             [] \<Rightarrow> Blocked wmr
           | (ret, received) # rest \<Rightarrow>
               let wmr = wmr\<lparr>dev := (dev wmr)\<lparr>pending := rest\<rparr>,
                             buf := hid_read_into (WMR200_FRAME_SIZE cfg) received (buf wmr)\<rparr>;
                   wmr = wmr\<lparr>meta := (meta wmr)\<lparr>num_frames := uint_inc (num_frames (meta wmr))\<rparr>\<rparr>;
                   wmr = (if ret \<noteq> int (WMR200_FRAME_SIZE cfg)
                          then log_warning ''Cannot read frame'' wmr else wmr)
               in (case byte_at (buf wmr) 0 of
                     None \<Rightarrow> Fault OOB_read
                   | Some n \<Rightarrow> Ok (wmr\<lparr>buf_avail := nat n, buf_pos := 1\<rparr>)))
        else Ok wmr)
       (\<lambda>wmr.
          let wmr = wmr\<lparr>meta := (meta wmr)\<lparr>num_bytes := uint_inc (num_bytes (meta wmr))\<rparr>\<rparr>;
              wmr = wmr\<lparr>buf_avail := uint_dec (buf_avail wmr)\<rparr>
          in if buf_pos wmr < length (buf wmr)
             then Ok (buf wmr ! buf_pos wmr, wmr\<lparr>buf_pos := uint_inc (buf_pos wmr)\<rparr>)
             else Fault OOB_read)"

text \<open>
  \<^verbatim>\<open>send_cmd_frame\<close>: the frame is \<^verbatim>\<open>{ 0x01, cmd }\<close> filled with zeros to the frame
  size (an initialiser longer than the array does not compile, so the frame size is at
  least 2 wherever this runs).
\<close>

definition send_cmd_frame :: "config \<Rightarrow> uchar \<Rightarrow> wmr200 \<Rightarrow> wmr200 result" where
  "send_cmd_frame cfg cmd wmr =
     (let data = take (WMR200_FRAME_SIZE cfg) ([0x01, cmd] @ replicate (WMR200_FRAME_SIZE cfg - 2) 0);
          ret = write_ret (dev wmr) (length (written (dev wmr)));
          wmr = wmr\<lparr>dev := (dev wmr)\<lparr>written := written (dev wmr) @ [data]\<rparr>\<rparr>
      in if ret \<noteq> int (WMR200_FRAME_SIZE cfg)
         then Exited (emit (Stderr ''hid_write: cannot send %02x command frame, return was %i'') wmr)
         else Ok wmr)"

definition send_heartbeat :: "config \<Rightarrow> wmr200 \<Rightarrow> wmr200 result" where
  "send_heartbeat cfg wmr =
     send_cmd_frame cfg HEARTBEAT (log_debug ''Sending heartbeat to WMR200'' wmr)"

subsection \<open>Data processing\<close>

definition get_reading_time_from_packet :: "config \<Rightarrow> wmr200 \<Rightarrow> time_t option" where
  "get_reading_time_from_packet cfg wmr =
     do {
       p6 \<leftarrow> byte_at (packet wmr) 6;
       p5 \<leftarrow> byte_at (packet wmr) 5;
       p4 \<leftarrow> byte_at (packet wmr) 4;
       p3 \<leftarrow> byte_at (packet wmr) 3;
       p2 \<leftarrow> byte_at (packet wmr) 2;
       Some (mktime cfg
         \<lparr>tm_year = (2000 + p6) - 1900,
          tm_mon = p5,
          tm_mday = p4,
          tm_hour = p3,
          tm_min = p2,
          tm_sec = 0,
          tm_isdst = - 1\<rparr>)
     }"

definition invoke_handlers :: "wmr_reading \<Rightarrow> wmr200 \<Rightarrow> wmr200" where
  "invoke_handlers reading wmr =
     wmr\<lparr>trace := trace wmr @ map (\<lambda>h. Invoke h reading) (handler wmr)\<rparr>"

definition update_if_newer :: "wmr_reading \<Rightarrow> wmr_reading \<Rightarrow> wmr_reading" where
  "update_if_newer old new = (if time new \<ge> time old then new else old)"

definition process_wind_data :: "config \<Rightarrow> wmr200 \<Rightarrow> uchar list \<Rightarrow> wmr200 result" where
  "process_wind_data cfg wmr data =
     (case do {
         d7 \<leftarrow> byte_at data 7;
         let dir_flag = LOW d7;
         d10 \<leftarrow> byte_at data 10;
         d9 \<leftarrow> byte_at data 9;
         let gust_speed = double_to_float (double_div (int_to_double (256 * LOW d10 + d9)) 10);
         d11 \<leftarrow> byte_at data 11;
         let avg_speed = double_to_float (double_div (int_to_double (16 * LOW d11 + HIGH d10)) 10);
         d12 \<leftarrow> byte_at data 12;
         let chill = int_to_float d12;
         t \<leftarrow> get_reading_time_from_packet cfg wmr;
         d \<leftarrow> table_get WIND_DIR_STRING dir_flag;
         Some \<lparr>time = t,
               payload = WMR_WIND \<lparr>dir = d, gust_speed = gust_speed,
                                   avg_speed = avg_speed, chill = chill\<rparr>\<rparr>
       } of
        None \<Rightarrow> Fault OOB_read
      | Some reading \<Rightarrow>
          Ok (invoke_handlers reading
               (wmr\<lparr>latest := (latest wmr)
                  \<lparr>latest_wind := update_if_newer (latest_wind (latest wmr)) reading\<rparr>\<rparr>)))"

definition process_rain_data :: "config \<Rightarrow> wmr200 \<Rightarrow> uchar list \<Rightarrow> wmr200 result" where
  "process_rain_data cfg wmr data =
     (case do {
         d8 \<leftarrow> byte_at data 8;
         d7 \<leftarrow> byte_at data 7;
         let rate = double_to_float (double_mul (int_to_double (push_bit 8 d8 + d7)) TENTH_OF_INCH);
         d10 \<leftarrow> byte_at data 10;
         d9 \<leftarrow> byte_at data 9;
         let accum_hour = double_to_float (double_mul (int_to_double (push_bit 8 d10 + d9)) TENTH_OF_INCH);
         d12 \<leftarrow> byte_at data 12;
         d11 \<leftarrow> byte_at data 11;
         let accum_24h = double_to_float (double_mul (int_to_double (push_bit 8 d12 + d11)) TENTH_OF_INCH);
         d14 \<leftarrow> byte_at data 14;
         d13 \<leftarrow> byte_at data 13;
         let accum_2007 = double_to_float (double_mul (int_to_double (push_bit 8 d14 + d13)) TENTH_OF_INCH);
         t \<leftarrow> get_reading_time_from_packet cfg wmr;
         Some \<lparr>time = t,
               payload = WMR_RAIN \<lparr>rate = rate, accum_hour = accum_hour,
                                   accum_24h = accum_24h, accum_2007 = accum_2007\<rparr>\<rparr>
       } of
        None \<Rightarrow> Fault OOB_read
      | Some reading \<Rightarrow>
          Ok (invoke_handlers reading
               (wmr\<lparr>latest := (latest wmr)
                  \<lparr>latest_rain := update_if_newer (latest_rain (latest wmr)) reading\<rparr>\<rparr>)))"

definition process_uvi_data :: "config \<Rightarrow> wmr200 \<Rightarrow> uchar list \<Rightarrow> wmr200 result" where
  "process_uvi_data cfg wmr data =
     (case do {
         d7 \<leftarrow> byte_at data 7;
         let index = LOW d7;
         t \<leftarrow> get_reading_time_from_packet cfg wmr;
         Some \<lparr>time = t, payload = WMR_UVI \<lparr>index = index\<rparr>\<rparr>
       } of
        None \<Rightarrow> Fault OOB_read
      | Some reading \<Rightarrow>
          Ok (invoke_handlers reading
               (wmr\<lparr>latest := (latest wmr)
                  \<lparr>latest_uvi := update_if_newer (latest_uvi (latest wmr)) reading\<rparr>\<rparr>)))"

definition process_baro_data :: "config \<Rightarrow> wmr200 \<Rightarrow> uchar list \<Rightarrow> wmr200 result" where
  "process_baro_data cfg wmr data =
     (case do {
         d8 \<leftarrow> byte_at data 8;
         d7 \<leftarrow> byte_at data 7;
         let pressure = 256 * LOW d8 + d7;
         d10 \<leftarrow> byte_at data 10;
         d9 \<leftarrow> byte_at data 9;
         let alt_pressure = 256 * LOW d10 + d9;
         let forecast_flag = HIGH d8;
         t \<leftarrow> get_reading_time_from_packet cfg wmr;
         f \<leftarrow> table_get FORECAST_STRING forecast_flag;
         Some \<lparr>time = t,
               payload = WMR_BARO \<lparr>pressure = pressure, alt_pressure = alt_pressure,
                                   forecast = f\<rparr>\<rparr>
       } of
        None \<Rightarrow> Fault OOB_read
      | Some reading \<Rightarrow>
          Ok (invoke_handlers reading
               (wmr\<lparr>latest := (latest wmr)
                  \<lparr>latest_baro := update_if_newer (latest_baro (latest wmr)) reading\<rparr>\<rparr>)))"

text \<open>
  \<^verbatim>\<open>process_temp_data\<close> leaves through \<^verbatim>\<open>exit(1)\<close> when the sensor is unknown.
  The slot is \<^verbatim>\<open>wmr->latest.temp[sensor_id]\<close>; \<open>latest_temp\<close> has the length of that
  array, and an index outside it is a write outside the array.
\<close>

definition process_temp_data :: "config \<Rightarrow> wmr200 \<Rightarrow> uchar list \<Rightarrow> wmr200 result" where
  "process_temp_data cfg wmr data =
     (case byte_at data 7 of
        None \<Rightarrow> Fault OOB_read
      | Some d7 \<Rightarrow>
          let sensor_id = LOW d7 in
          if sensor_id > 1
          then Exited (emit (Stderr ''Unknown sensor, ID: %i'') wmr)
          else
            (case do {
                humidity \<leftarrow> byte_at data 10;
                heat_index \<leftarrow> byte_at data 13;
                d9 \<leftarrow> byte_at data 9;
                d8 \<leftarrow> byte_at data 8;
                let temp = double_to_float (double_div (int_to_double (256 * LOW d9 + d8)) 10);
                let temp = (if HIGH d9 = SIGN_NEGATIVE then - temp else temp);
                d12 \<leftarrow> byte_at data 12;
                d11 \<leftarrow> byte_at data 11;
                let dew_point = double_to_float (double_div (int_to_double (256 * LOW d12 + d11)) 10);
                let dew_point = (if HIGH d12 = SIGN_NEGATIVE then - dew_point else dew_point);
                t \<leftarrow> get_reading_time_from_packet cfg wmr;
                Some \<lparr>time = t,
                      payload = WMR_TEMP \<lparr>humidity = humidity, heat_index = heat_index,
                                          temp = temp, dew_point = dew_point,
                                          sensor_id = sensor_id\<rparr>\<rparr>
              } of
               None \<Rightarrow> Fault OOB_read
             | Some reading \<Rightarrow>
                 if nat sensor_id < length (latest_temp (latest wmr))
                 then Ok (invoke_handlers reading
                        (wmr\<lparr>latest := (latest wmr)
                           \<lparr>latest_temp := (latest_temp (latest wmr))
                              [nat sensor_id :=
                                 update_if_newer (latest_temp (latest wmr) ! nat sensor_id) reading]\<rparr>\<rparr>))
                 else Fault OOB_write))"

definition process_status_data :: "config \<Rightarrow> wmr200 \<Rightarrow> uchar list \<Rightarrow> wmr200 result" where
  "process_status_data cfg wmr data =
     (case do {
         d4 \<leftarrow> byte_at data 4;
         let wind_bat_flag = NTH_BIT 0 d4;
         let temp_bat_flag = NTH_BIT 1 d4;
         d5 \<leftarrow> byte_at data 5;
         let rain_bat_flag = NTH_BIT 4 d5;
         let uv_bat_flag = NTH_BIT 5 d5;
         d2 \<leftarrow> byte_at data 2;
         let wind_sensor_flag = NTH_BIT 0 d2;
         let temp_sensor_flag = NTH_BIT 1 d2;
         d3 \<leftarrow> byte_at data 3;
         let rain_sensor_flag = NTH_BIT 4 d3;
         let uv_sensor_flag = NTH_BIT 5 d3;
         let rtc_signal_flag = NTH_BIT 8 d4;
         t \<leftarrow> get_reading_time_from_packet cfg wmr;
         wind_bat \<leftarrow> table_get LEVEL_STRING wind_bat_flag;
         temp_bat \<leftarrow> table_get LEVEL_STRING temp_bat_flag;
         rain_bat \<leftarrow> table_get LEVEL_STRING rain_bat_flag;
         uv_bat \<leftarrow> table_get LEVEL_STRING uv_bat_flag;
         wind_sensor \<leftarrow> table_get STATUS_STRING wind_sensor_flag;
         temp_sensor \<leftarrow> table_get STATUS_STRING temp_sensor_flag;
         rain_sensor \<leftarrow> table_get STATUS_STRING rain_sensor_flag;
         uv_sensor \<leftarrow> table_get STATUS_STRING uv_sensor_flag;
         rtc_signal_level \<leftarrow> table_get LEVEL_STRING rtc_signal_flag;
         Some \<lparr>time = t,
               payload = WMR_STATUS
                 \<lparr>wind_bat = wind_bat, temp_bat = temp_bat,
                  rain_bat = rain_bat, uv_bat = uv_bat,
                  wind_sensor = wind_sensor, temp_sensor = temp_sensor,
                  rain_sensor = rain_sensor, uv_sensor = uv_sensor,
                  rtc_signal_level = rtc_signal_level\<rparr>\<rparr>
       } of
        None \<Rightarrow> Fault OOB_read
      | Some reading \<Rightarrow>
          Ok (invoke_handlers reading
               (wmr\<lparr>latest := (latest wmr)
                  \<lparr>latest_status := update_if_newer (latest_status (latest wmr)) reading\<rparr>\<rparr>)))"

text \<open>
  The loop over the external sensors of a historic record:
  \<^verbatim>\<open>for (uint_t i = 0; i < ext_sensor_count; i++) process_temp_data(wmr, data + 33 + (7 * i));\<close>
  The pointer \<^verbatim>\<open>data + k\<close> is the list without its first \<open>k\<close> bytes.
\<close>

function process_historic_data_loop ::
  "config \<Rightarrow> uchar list \<Rightarrow> nat \<Rightarrow> nat \<Rightarrow> wmr200 \<Rightarrow> wmr200 result" where
  "process_historic_data_loop cfg data ext_sensor_count i wmr =
     (if i < ext_sensor_count
      then (case process_temp_data cfg wmr (drop (33 + (7 * i)) data) of
              Ok wmr' \<Rightarrow> process_historic_data_loop cfg data ext_sensor_count (Suc i) wmr'
            | Exited wmr' \<Rightarrow> Exited wmr'
            | Blocked wmr' \<Rightarrow> Blocked wmr'
            | Fault e \<Rightarrow> Fault e)
      else Ok wmr)"
  by pat_completeness auto
termination
  by (relation "measure (\<lambda>(cfg, data, ext_sensor_count, i, wmr). ext_sensor_count - i)") auto

declare process_historic_data_loop.simps [simp del]

definition process_historic_data :: "config \<Rightarrow> wmr200 \<Rightarrow> uchar list \<Rightarrow> wmr200 result" where
  "process_historic_data cfg wmr data =
     then_do (process_rain_data cfg wmr data) (\<lambda>wmr.
     then_do (process_wind_data cfg wmr (drop 13 data)) (\<lambda>wmr.
     then_do (process_uvi_data cfg wmr (drop 20 data)) (\<lambda>wmr.
     then_do (process_baro_data cfg wmr (drop 21 data)) (\<lambda>wmr.
     then_do (process_temp_data cfg wmr (drop 26 data)) (\<lambda>wmr.
       (case byte_at data 32 of
          None \<Rightarrow> Fault OOB_read
        | Some d32 \<Rightarrow>
            let ext_sensor_count = nat d32;
                wmr = (if ext_sensor_count > WMR200_MAX_TEMP_SENSORS cfg
                       then log_warning
                         ''process_historic_data: too many external sensors, skipping extraneous sensors''
                         wmr
                       else wmr);
                ext_sensor_count = min ext_sensor_count (WMR200_MAX_TEMP_SENSORS cfg)
            in process_historic_data_loop cfg data ext_sensor_count 0 wmr))))))"

definition emit_meta_packet :: "wmr200 \<Rightarrow> wmr200" where
  "emit_meta_packet wmr =
     (let wmr = log_debug ''Emitting system META packet 0x%02X'' wmr;
          (now, wmr) = time_NULL wmr;
          wmr = wmr\<lparr>meta := (meta wmr)\<lparr>uptime := now - conn_since wmr\<rparr>\<rparr>;
          (now, wmr) = time_NULL wmr;
          reading = \<lparr>time = now, payload = WMR_META (meta wmr)\<rparr>;
          wmr = wmr\<lparr>latest := (latest wmr)\<lparr>latest_meta := reading\<rparr>\<rparr>
      in invoke_handlers reading wmr)"

subsection \<open>Packet processing\<close>

text \<open>
  The summing loop of \<^verbatim>\<open>verify_packet\<close> (\<open>acc\<close> is the variable \<^verbatim>\<open>sum\<close>). It runs only when
  \<^verbatim>\<open>packet_len > 2\<close>, so \<^verbatim>\<open>packet_len - 2\<close> does not wrap.
\<close>

function verify_packet_loop :: "wmr200 \<Rightarrow> nat \<Rightarrow> nat \<Rightarrow> nat option" where
  "verify_packet_loop wmr i acc =
     (if i < packet_len wmr - 2
      then (case byte_at (packet wmr) i of
              None \<Rightarrow> None
            | Some b \<Rightarrow> verify_packet_loop wmr (Suc i) (uint_add acc (nat b)))
      else Some acc)"
  by pat_completeness auto
termination
  by (relation "measure (\<lambda>(wmr, i, acc). packet_len wmr - 2 - i)") auto

declare verify_packet_loop.simps [simp del]

definition verify_packet :: "wmr200 \<Rightarrow> nat result" where
  "verify_packet wmr =
     (if packet_len wmr \<le> 2 then Ok UINT_MINUS_ONE
      else
        (case do {
            acc \<leftarrow> verify_packet_loop wmr 0 0;
            hi \<leftarrow> byte_at (packet wmr) (packet_len wmr - 1);
            lo \<leftarrow> byte_at (packet wmr) (packet_len wmr - 2);
            let checksum = nat (256 * hi + lo);
            Some (if acc \<noteq> checksum then UINT_MINUS_ONE else 0)
          } of
           None \<Rightarrow> Fault OOB_read
         | Some r \<Rightarrow> Ok r))"

definition dispatch_packet :: "config \<Rightarrow> wmr200 \<Rightarrow> wmr200 result" where
  "dispatch_packet cfg wmr =
     (if packet_type wmr = HISTORIC_DATA then process_historic_data cfg wmr (packet wmr)
      else if packet_type wmr = TYPE_WIND cfg then process_wind_data cfg wmr (packet wmr)
      else if packet_type wmr = TYPE_RAIN cfg then process_rain_data cfg wmr (packet wmr)
      else if packet_type wmr = TYPE_UVI cfg then process_uvi_data cfg wmr (packet wmr)
      else if packet_type wmr = TYPE_BARO cfg then process_baro_data cfg wmr (packet wmr)
      else if packet_type wmr = TYPE_TEMP cfg then process_temp_data cfg wmr (packet wmr)
      else if packet_type wmr = TYPE_STATUS cfg then process_status_data cfg wmr (packet wmr)
      else Ok (log_warning ''Ignoring unknown packet 0x%02X'' wmr))"

text \<open>
  \<^verbatim>\<open>mainloop\<close> is a \<^verbatim>\<open>while (1)\<close> around a label and a \<^verbatim>\<open>goto\<close>. It is
  embedded in four parts. \<open>mainloop_read_payload\<close> is the loop
  \<^verbatim>\<open>for (uint_t i = 2; i < wmr->packet_len; i++) wmr->packet[i] = read_byte(wmr);\<close>
\<close>

function mainloop_read_payload :: "config \<Rightarrow> nat \<Rightarrow> wmr200 \<Rightarrow> wmr200 result" where
  "mainloop_read_payload cfg i wmr =
     (if i < packet_len wmr
      then (case read_byte cfg wmr of
              Ok (b, wmr') \<Rightarrow>
                if i < length (packet wmr')
                then mainloop_read_payload cfg (Suc i) (wmr'\<lparr>packet := (packet wmr')[i := b]\<rparr>)
                else Fault OOB_write
            | Exited wmr' \<Rightarrow> Exited wmr'
            | Blocked wmr' \<Rightarrow> Blocked wmr'
            | Fault e \<Rightarrow> Fault e)
      else Ok wmr)"
  by pat_completeness auto
termination
  by (relation "measure (\<lambda>(cfg, i, wmr). packet_len wmr - i)")
     (auto simp: read_byte_def then_do_def Let_def log_warning_def emit_def
           split: if_splits list.splits option.splits)

declare mainloop_read_payload.simps [simp del]

text \<open>
  \<open>mainloop_packet\<close> is the rest of an iteration once the length is known, from
  \<^verbatim>\<open>malloc_safe\<close> to \<^verbatim>\<open>free\<close>. The allocated bytes have no defined content; they are
  written as zeros here and every one of them is assigned before it is read. The result
  \<open>Ok\<close> is the state in which the next iteration starts.
\<close>

definition mainloop_packet :: "config \<Rightarrow> wmr200 \<Rightarrow> wmr200 result" where
  "mainloop_packet cfg wmr =
     (let wmr = emit (Malloc (packet_len wmr)) (wmr\<lparr>packet := replicate (packet_len wmr) 0\<rparr>)
      in if length (packet wmr) \<le> 1 then Fault OOB_write
         else
           let wmr = wmr\<lparr>packet := (packet wmr)[0 := packet_type wmr]\<rparr>;
               wmr = wmr\<lparr>packet := (packet wmr)[1 := of_nat (packet_len wmr)]\<rparr>
           in then_do (mainloop_read_payload cfg 2 wmr) (\<lambda>wmr.
                let wmr = wmr\<lparr>meta := (meta wmr)\<lparr>num_packets := uint_inc (num_packets (meta wmr))\<rparr>\<rparr>
                in then_do (verify_packet wmr) (\<lambda>v.
                     if v \<noteq> 0
                     then
                       (let wmr = log_warning ''Received incorrect packet, dropping'' wmr
                        in Ok (wmr\<lparr>meta := (meta wmr)\<lparr>num_failed := uint_inc (num_failed (meta wmr))\<rparr>\<rparr>))
                     else
                       (let wmr = log_debug ''Packet 0x%02X (%u bytes)'' wmr;
                            (now, wmr) = time_NULL wmr;
                            wmr = wmr\<lparr>meta := (meta wmr)\<lparr>latest_packet := now\<rparr>\<rparr>
                        in then_do (dispatch_packet cfg wmr) (\<lambda>wmr. Ok (emit Free wmr))))))"

text \<open>
  \<open>act_on_packet_type\<close> is an iteration from the label of that name on, entered with
  \<^verbatim>\<open>wmr->packet_type\<close> set. The \<^verbatim>\<open>goto\<close> is the recursive call. Each call has
  consumed a byte of the input, which is why the recursion ends.
\<close>

function act_on_packet_type :: "config \<Rightarrow> wmr200 \<Rightarrow> wmr200 result" where
  "act_on_packet_type cfg wmr =
     (if packet_type wmr = HISTORIC_DATA_NOTIF
      then send_cmd_frame cfg REQUEST_HISTORIC_DATA
             (log_info ''Issuing REQUEST_HISTORIC_DATA command''
               (log_info ''Data logger contains some unprocessed historic records'' wmr))
      else if packet_type wmr = LOGGER_DATA_ERASE
      then Ok (log_info ''Data logger database purge successful'' wmr)
      else
        (case read_byte cfg
                (if packet_type wmr = COMMUNICATION_STOP
                 then log_debug ''Ignoring COMMUNICATION_STOP packet'' wmr else wmr) of
           Ok (b, wmr') \<Rightarrow>
             if unat b \<ge> 0xD0 \<and> unat b \<le> 0xDF
             then act_on_packet_type cfg (wmr'\<lparr>packet_len := unat b, packet_type := of_nat (unat b)\<rparr>)
             else mainloop_packet cfg (wmr'\<lparr>packet_len := unat b\<rparr>)
         | Exited wmr' \<Rightarrow> Exited wmr'
         | Blocked wmr' \<Rightarrow> Blocked wmr'
         | Fault e \<Rightarrow> Fault e))"
  by pat_completeness auto
termination
proof -
  have dec: "uint_dec n < n" if "0 < n" for n
  proof -
    from that obtain m where n: "n = Suc m" by (cases n) auto
    have "uint_dec n = (4294967296 + m) mod 4294967296"
      by (simp add: uint_dec_def n)
    also have "\<dots> = m mod 4294967296"
      by (simp only: mod_add_self1)
    also have "\<dots> \<le> m"
      by (rule mod_less_eq_dividend)
    finally show ?thesis by (simp add: n)
  qed
  show ?thesis
    by (relation "measures [\<lambda>(cfg, wmr). length (pending (dev wmr)), \<lambda>(cfg, wmr). buf_avail wmr]")
       (auto simp: read_byte_def then_do_def Let_def log_warning_def log_debug_def emit_def dec
             split: if_splits list.splits option.splits)
qed

declare act_on_packet_type.simps [simp del]

text \<open>
  \<^verbatim>\<open>while (1)\<close> does not end: \<open>mainloop n\<close> is the state after \<open>n\<close> iterations, or
  the way in which an earlier iteration left the loop.
\<close>

fun mainloop :: "nat \<Rightarrow> config \<Rightarrow> wmr200 \<Rightarrow> wmr200 result" where
  "mainloop 0 cfg wmr = Ok wmr"
| "mainloop (Suc n) cfg wmr =
     (case read_byte cfg wmr of
        Ok (b, wmr') \<Rightarrow>
          (case act_on_packet_type cfg (wmr'\<lparr>packet_type := b\<rparr>) of
             Ok wmr'' \<Rightarrow> mainloop n cfg wmr''
           | Exited wmr'' \<Rightarrow> Exited wmr''
           | Blocked wmr'' \<Rightarrow> Blocked wmr''
           | Fault e \<Rightarrow> Fault e)
      | Exited wmr' \<Rightarrow> Exited wmr'
      | Blocked wmr' \<Rightarrow> Blocked wmr'
      | Fault e \<Rightarrow> Fault e)"

text \<open>\<^verbatim>\<open>heartbeat_loop\<close>, in the same way: the state after \<open>n\<close> heartbeats.\<close>

fun heartbeat_loop :: "nat \<Rightarrow> config \<Rightarrow> wmr200 \<Rightarrow> wmr200 result" where
  "heartbeat_loop 0 cfg wmr = Ok wmr"
| "heartbeat_loop (Suc n) cfg wmr =
     (case send_heartbeat cfg wmr of
        Ok wmr' \<Rightarrow> heartbeat_loop n cfg (emit_meta_packet wmr')
      | Exited wmr' \<Rightarrow> Exited wmr'
      | Blocked wmr' \<Rightarrow> Blocked wmr'
      | Fault e \<Rightarrow> Fault e)"

subsection \<open>Public interface\<close>

text \<open>
  \<^verbatim>\<open>wmr_open\<close> gets the device that \<^verbatim>\<open>hid_open\<close> found (\<open>None\<close> for
  \<^verbatim>\<open>NULL\<close>) and the clock, and returns \<open>None\<close> where the C function returns
  \<^verbatim>\<open>NULL\<close>. The two \<^verbatim>\<open>memset\<close> calls clear the slots and the counters; the
  array of temperature slots is taken to have \<^verbatim>\<open>WMR200_MAX_TEMP_SENSORS\<close> elements.
  \<^verbatim>\<open>wmr_open\<close> leaves \<^verbatim>\<open>buf\<close>, \<^verbatim>\<open>packet_type\<close> and \<^verbatim>\<open>packet_len\<close> as
  allocated; they are zero here, and \<^verbatim>\<open>mainloop\<close> assigns each before reading it.
\<close>

definition zero_reading :: wmr_reading where
  "zero_reading = \<lparr>time = 0, payload = ZEROED\<rparr>"

definition wmr_open :: "config \<Rightarrow> hid_device option \<Rightarrow> (nat \<Rightarrow> time_t) \<Rightarrow> wmr200 option" where
  "wmr_open cfg d clk =
     (case d of
        None \<Rightarrow> None
      | Some d \<Rightarrow>
          let abracadabra = [0x20, 0x00, 0x08, 0x01, 0x00, 0x00, 0x00, 0x00];
              ret = write_ret d (length (written d))
          in if ret \<noteq> 8 then None
             else Some
               \<lparr>dev = d\<lparr>written := written d @ [abracadabra]\<rparr>,
                handler = [],
                latest =
                  \<lparr>latest_wind = zero_reading, latest_rain = zero_reading,
                   latest_uvi = zero_reading, latest_baro = zero_reading,
                   latest_temp = replicate (WMR200_MAX_TEMP_SENSORS cfg) zero_reading,
                   latest_status = zero_reading, latest_meta = zero_reading\<rparr>,
                meta =
                  \<lparr>num_frames = 0, num_bytes = 0, num_packets = 0, num_failed = 0,
                   latest_packet = 0, uptime = 0\<rparr>,
                conn_since = clk 0,
                buf = replicate (WMR200_FRAME_SIZE cfg) 0,
                buf_avail = 0,
                buf_pos = 0,
                packet = [],
                packet_type = 0,
                packet_len = 0,
                trace = [],
                clock = clk,
                ticks = 1\<rparr>)"

definition wmr_add_handler :: "wmr200 \<Rightarrow> nat \<Rightarrow> wmr200" where
  "wmr_add_handler wmr h = wmr\<lparr>handler := h # handler wmr\<rparr>"

subsection \<open>Example inputs\<close>

text \<open>
  A configuration and a connection for the concrete cases below: frames of 8 bytes, two
  temperature slots, the packet types of the WMR200 protocol, a device that accepts
  every write, a clock that stands at 1000, one registered handler, and for \<open>mktime\<close>
  a count of seconds in a calendar of 12 months of 31 days.
\<close>

definition example_config :: config where
  "example_config =
     \<lparr>WMR200_FRAME_SIZE = 8,
      WMR200_MAX_TEMP_SENSORS = 2,
      TYPE_WIND = 0xD3, TYPE_RAIN = 0xD4, TYPE_UVI = 0xD5,
      TYPE_BARO = 0xD6, TYPE_TEMP = 0xD7, TYPE_STATUS = 0xD9,
      mktime = (\<lambda>t. ((((tm_year t * 12 + tm_mon t) * 31 + tm_mday t) * 24 + tm_hour t) * 60
                       + tm_min t) * 60 + tm_sec t)\<rparr>"

definition example_device :: "(int \<times> uchar list) list \<Rightarrow> hid_device" where
  "example_device frames = \<lparr>pending = frames, written = [], write_ret = (\<lambda>k. 8)\<rparr>"

definition example_wmr :: "(int \<times> uchar list) list \<Rightarrow> wmr200" where
  "example_wmr frames =
     wmr_add_handler (the (wmr_open example_config (Some (example_device frames)) (\<lambda>k. 1000))) 0"

text \<open>
  A historic record of 56 bytes with a correct checksum whose byte 32, the number of
  external sensors, is 200. The sensor ids in the bytes 33, 40 and 47 are 0, 1 and 1.
\<close>

definition example_historic :: "uchar list" where
  "example_historic =
     [0xD2, 56, 30, 12, 15, 6, 20, 0,
      0, 0, 0, 0, 0, 0, 0, 0,
      0, 0, 0, 0, 0, 0, 0, 0,
      0, 0, 0, 0, 0, 0, 0, 0,
      200, 0, 0, 0, 0, 0, 0, 0,
      1, 0, 0, 0, 0, 0, 0, 1,
      0, 0, 0, 0, 0, 0, 0x27, 0x02]"


text \<open>
  The example connection with a wall clock that is set back: the first three calls of
  \<^verbatim>\<open>time(NULL)\<close> return 100, the later ones 50.
\<close>

definition example_clock_set_back :: "nat \<Rightarrow> time_t" where
  "example_clock_set_back k = (if k < 3 then 100 else 50)"

definition example_wmr_clock_set_back :: wmr200 where
  "example_wmr_clock_set_back = (example_wmr [])\<lparr>clock := example_clock_set_back\<rparr>"

subsection \<open>Notions for stating the properties\<close>

text \<open>
  The two halves of a byte, and the time that \<^verbatim>\<open>get_reading_time_from_packet\<close>
  computes from the bytes 2 to 6 of the packet when they are all there.
\<close>

abbreviation low_nibble :: "uchar \<Rightarrow> nat" where
  "low_nibble b \<equiv> unat b mod 16"

abbreviation high_nibble :: "uchar \<Rightarrow> nat" where
  "high_nibble b \<equiv> unat b div 16"

abbreviation packet_time :: "config \<Rightarrow> wmr200 \<Rightarrow> time_t" where
  "packet_time cfg wmr \<equiv>
     mktime cfg
       \<lparr>tm_year = 100 + uint (packet wmr ! 6), tm_mon = uint (packet wmr ! 5),
        tm_mday = uint (packet wmr ! 4), tm_hour = uint (packet wmr ! 3),
        tm_min = uint (packet wmr ! 2), tm_sec = 0, tm_isdst = - 1\<rparr>"

text \<open>Kinds of events in the trace.\<close>

fun is_warning :: "event \<Rightarrow> bool" where
  "is_warning (Log_warning msg) = True"
| "is_warning e = False"

fun is_malloc :: "event \<Rightarrow> bool" where
  "is_malloc (Malloc n) = True"
| "is_malloc e = False"

fun is_temp :: "wmr_payload \<Rightarrow> bool" where
  "is_temp (WMR_TEMP t) = True"
| "is_temp p = False"

fun is_temp_delivery :: "event \<Rightarrow> bool" where
  "is_temp_delivery (Invoke h reading) = is_temp (payload reading)"
| "is_temp_delivery e = False"

text \<open>
  A slot before and after an operation: it is as it was, or it holds a reading that is
  not older than the one it held. \<open>store_kept_or_newer\<close> says so of every slot of two
  stores.
\<close>

definition kept_or_newer :: "wmr_reading \<Rightarrow> wmr_reading \<Rightarrow> bool" where
  "kept_or_newer old new \<longleftrightarrow> new = old \<or> time old \<le> time new"

definition store_kept_or_newer :: "wmr_latest \<Rightarrow> wmr_latest \<Rightarrow> bool" where
  "store_kept_or_newer l l' \<longleftrightarrow>
     kept_or_newer (latest_wind l) (latest_wind l') \<and>
     kept_or_newer (latest_rain l) (latest_rain l') \<and>
     kept_or_newer (latest_uvi l) (latest_uvi l') \<and>
     kept_or_newer (latest_baro l) (latest_baro l') \<and>
     kept_or_newer (latest_status l) (latest_status l') \<and>
     kept_or_newer (latest_meta l) (latest_meta l') \<and>
     length (latest_temp l') = length (latest_temp l) \<and>
     list_all2 kept_or_newer (latest_temp l) (latest_temp l')"

text \<open>
  The state in which a call ends, if it ends in one: \<open>final\<close> forgets whether the call
  returned, left through \<^verbatim>\<open>exit\<close> or is waiting for the device.
\<close>

fun final :: "wmr200 result \<Rightarrow> wmr200 option" where
  "final (Ok wmr) = Some wmr"
| "final (Exited wmr) = Some wmr"
| "final (Blocked wmr) = Some wmr"
| "final (Fault e) = None"

text \<open>
  \<open>store_step\<close>: between two states no slot went back in time and the slot of the
  connection data is as it was. \<open>delivers t\<close>: between two states one reading went to
  every registered handler, and nothing else was written to the trace; \<open>t\<close> says
  whether it was a temperature reading.
\<close>

definition store_step :: "wmr200 \<Rightarrow> wmr200 \<Rightarrow> bool" where
  "store_step wmr wmr' \<longleftrightarrow>
     store_kept_or_newer (latest wmr) (latest wmr') \<and>
     latest_meta (latest wmr') = latest_meta (latest wmr)"

definition delivers :: "bool \<Rightarrow> wmr200 \<Rightarrow> wmr200 \<Rightarrow> bool" where
  "delivers t wmr wmr' \<longleftrightarrow>
     (\<exists>r. is_temp (payload r) = t \<and>
          trace wmr' = trace wmr @ map (\<lambda>h. Invoke h r) (handler wmr)) \<and>
     handler wmr' = handler wmr \<and> store_step wmr wmr'"

section \<open>Properties\<close>

subsection \<open>Bytes, macros and tables\<close>

lemma byte_at_Some: "i < length data \<Longrightarrow> byte_at data i = Some (uint (data ! i))"
  by (simp add: byte_at_def)

lemma unat_byte_less: "unat (b :: uchar) < 256"
  using unsigned_less [of b, where 'a = nat] by simp

lemma and_15_mod: "(x::int) AND 15 = x mod 16"
  using take_bit_eq_mask [of 4 x] by (simp add: take_bit_eq_mod mask_eq_exp_minus_1)

lemma and_1_mod: "(x::int) AND 1 = x mod 2"
  using take_bit_eq_mask [of 1 x] by (simp add: take_bit_eq_mod mask_eq_exp_minus_1)

text \<open>The low nibble, the high nibble and the \<open>n\<close>-th bit of a byte, in arithmetic.\<close>

lemma LOW_byte: "LOW (uint (b :: uchar)) = int (unat b mod 16)"
  by (simp add: LOW_def and_15_mod zmod_int)

lemma HIGH_byte: "HIGH (uint (b :: uchar)) = int (unat b div 16)"
proof -
  have "unat b div 16 < 16" using unat_byte_less [of b] by simp
  then have n: "unat b div 16 mod 16 = unat b div 16" by simp
  have "HIGH (uint b) = uint b div 16 mod 16"
    by (simp add: HIGH_def LOW_def and_15_mod drop_bit_eq_div)
  also have "\<dots> = int (unat b div 16 mod 16)"
    by (simp add: zdiv_int zmod_int)
  finally show ?thesis by (simp only: n)
qed

lemma NTH_BIT_byte: "NTH_BIT n (uint (b :: uchar)) = int (unat b div 2 ^ n mod 2)"
  by (simp add: NTH_BIT_def and_1_mod drop_bit_eq_div zdiv_int zmod_int)

lemma NTH_BIT_8_byte: "NTH_BIT 8 (uint (b :: uchar)) = 0"
proof -
  have "unat b < 256" by (rule unat_byte_less)
  then show ?thesis by (simp add: NTH_BIT_byte)
qed

lemma table_get_LEVEL:
  "table_get LEVEL_STRING (int (k mod 2)) = Some (LEVEL_STRING ! (k mod 2))"
  by (simp add: table_get_def LEVEL_STRING_def)

lemma table_get_STATUS:
  "table_get STATUS_STRING (int (k mod 2)) = Some (STATUS_STRING ! (k mod 2))"
  by (simp add: table_get_def STATUS_STRING_def)

lemma table_get_WIND_DIR:
  "table_get WIND_DIR_STRING (int (k mod 16)) = Some (WIND_DIR_STRING ! (k mod 16))"
  by (simp add: table_get_def WIND_DIR_STRING_def)

lemma get_reading_time_Some:
  "6 < length (packet wmr) \<Longrightarrow>
   get_reading_time_from_packet cfg wmr = Some (packet_time cfg wmr)"
  by (simp add: get_reading_time_from_packet_def byte_at_Some)

lemma example_wmr_simps:
  "example_wmr frames =
     \<lparr>dev = \<lparr>pending = frames,
             written = [[0x20, 0x00, 0x08, 0x01, 0x00, 0x00, 0x00, 0x00]],
             write_ret = (\<lambda>k. 8)\<rparr>,
      handler = [0],
      latest =
        \<lparr>latest_wind = zero_reading, latest_rain = zero_reading,
         latest_uvi = zero_reading, latest_baro = zero_reading,
         latest_temp = [zero_reading, zero_reading],
         latest_status = zero_reading, latest_meta = zero_reading\<rparr>,
      meta =
        \<lparr>num_frames = 0, num_bytes = 0, num_packets = 0, num_failed = 0,
         latest_packet = 0, uptime = 0\<rparr>,
      conn_since = 1000,
      buf = [0, 0, 0, 0, 0, 0, 0, 0],
      buf_avail = 0,
      buf_pos = 0,
      packet = [],
      packet_type = 0,
      packet_len = 0,
      trace = [],
      clock = (\<lambda>k. 1000),
      ticks = 1\<rparr>"
  by (simp add: example_wmr_def wmr_open_def example_device_def example_config_def
        wmr_add_handler_def Let_def numeral_eq_Suc)

subsection \<open>Floating point\<close>

text \<open>An integer of fewer bits than the format has significant bits is not rounded.\<close>

lemma round_to_even_int: "round_to_even (of_int m) = m"
  by (simp add: round_to_even_def)

lemma pow2_nonpos: "e \<le> 0 \<Longrightarrow> pow2 e = 1 / 2 ^ nat (- e)"
  by (cases "e = 0") (simp_all add: pow2_def)

lemma bitlen_1: "bitlen 1 = 1"
  by code_simp

lemma ilog2_int_le:
  assumes "0 < n" and "n < 2 ^ p"
  shows "ilog2 (of_int n) \<le> int p - 1"
proof -
  have "bitlen n \<le> int p"
    using assms bitlen_le_iff_power [of n p] by simp
  then show ?thesis
    by (simp add: ilog2_def Let_def bitlen_1)
qed

lemma round_binary_int:
  assumes "0 < n" and "n < 2 ^ p" and "emin \<le> 0" and "0 < p"
  shows "round_binary p emin (of_int n) = of_int n"
proof -
  define E where "E = max (ilog2 \<bar>rat_of_int n\<bar>) emin"
  have abs: "\<bar>rat_of_int n\<bar> = of_int n" using assms(1) by simp
  have "E \<le> int p - 1"
    using ilog2_int_le [OF assms(1,2)] assms(3,4) by (simp add: E_def abs)
  then have le: "E - int p + 1 \<le> 0" by simp
  define k where "k = nat (- (E - int p + 1))"
  have q: "pow2 (E - int p + 1) = 1 / 2 ^ k"
    using pow2_nonpos [OF le] by (simp add: k_def)
  have "rat_of_int n * 2 ^ k = of_int (n * 2 ^ k)" by simp
  then have r: "round_to_even (rat_of_int n * 2 ^ k) = n * 2 ^ k"
    by (simp only: round_to_even_int)
  have nz: "rat_of_int n \<noteq> 0" using assms(1) by simp
  show ?thesis
    using nz by (simp add: round_binary_def Let_def E_def [symmetric] q r)
qed

lemma round_binary_small_int:
  assumes "0 < n" and "n < 2 ^ k" and "k \<le> p" and "emin \<le> 0" and "0 < p"
  shows "round_binary p emin (of_int n) = of_int n"
proof -
  have "(2::int) ^ k \<le> 2 ^ p" using assms(3) by (rule power_increasing) simp
  with assms(2) have "n < 2 ^ p" by (rule less_le_trans)
  with assms(1) show ?thesis using assms(4,5) by (rule round_binary_int)
qed

lemma int_to_double_nat: "m < 2 ^ 16 \<Longrightarrow> int_to_double (int m) = of_nat m"
proof (cases "m = 0")
  case True
  then show ?thesis by (simp add: int_to_double_def c_double_def round_binary_def)
next
  case False
  assume "m < 2 ^ 16"
  then have lt: "int m < 2 ^ 16" by simp
  have "0 < int m" using False by simp
  from this lt have "round_binary 53 (- 1022) (of_int (int m)) = of_int (int m)"
    by (rule round_binary_small_int [where k = 16]) simp_all
  then show ?thesis by (simp add: int_to_double_def c_double_def)
qed

lemma int_to_float_nat: "m < 2 ^ 16 \<Longrightarrow> int_to_float (int m) = of_nat m"
proof (cases "m = 0")
  case True
  then show ?thesis by (simp add: int_to_float_def c_float_def round_binary_def)
next
  case False
  assume "m < 2 ^ 16"
  then have lt: "int m < 2 ^ 16" by simp
  have "0 < int m" using False by simp
  from this lt have "round_binary 24 (- 126) (of_int (int m)) = of_int (int m)"
    by (rule round_binary_small_int [where k = 16]) simp_all
  then show ?thesis by (simp add: int_to_float_def c_float_def)
qed

text \<open>The integers that the decoders convert, which are all small.\<close>

lemma int_to_double_nibble_byte:
  "int_to_double (256 * LOW (uint (a :: uchar)) + uint (b :: uchar)) =
     of_nat (256 * low_nibble a + unat b)"
proof -
  have "unat b < 256" by (rule unat_byte_less)
  moreover have "low_nibble a < 16" by simp
  ultimately have "256 * low_nibble a + unat b < 2 ^ 16" by simp
  then have "int_to_double (int (256 * low_nibble a + unat b)) = of_nat (256 * low_nibble a + unat b)"
    by (rule int_to_double_nat)
  moreover have "256 * LOW (uint a) + uint b = int (256 * low_nibble a + unat b)"
    by (simp add: LOW_byte)
  ultimately show ?thesis by (simp only:)
qed

lemma int_to_double_nibbles:
  "int_to_double (16 * LOW (uint (a :: uchar)) + HIGH (uint (b :: uchar))) =
     of_nat (16 * low_nibble a + high_nibble b)"
proof -
  have "unat b < 256" by (rule unat_byte_less)
  then have "high_nibble b < 16" by simp
  moreover have "low_nibble a < 16" by simp
  ultimately have "16 * low_nibble a + high_nibble b < 2 ^ 16" by simp
  then have "int_to_double (int (16 * low_nibble a + high_nibble b)) =
      of_nat (16 * low_nibble a + high_nibble b)"
    by (rule int_to_double_nat)
  moreover have "16 * LOW (uint a) + HIGH (uint b) = int (16 * low_nibble a + high_nibble b)"
    by (simp add: LOW_byte HIGH_byte)
  ultimately show ?thesis by (simp only:)
qed

lemma int_to_float_byte: "int_to_float (uint (b :: uchar)) = of_nat (unat b)"
proof -
  have "unat b < 256" by (rule unat_byte_less)
  then have "unat b < 2 ^ 16" by simp
  then have "int_to_float (int (unat b)) = of_nat (unat b)" by (rule int_to_float_nat)
  then show ?thesis by simp
qed

lemma table_get_WIND_DIR_LOW:
  "table_get WIND_DIR_STRING (LOW (uint (b :: uchar))) = Some (WIND_DIR_STRING ! low_nibble b)"
  by (simp only: LOW_byte table_get_WIND_DIR)


lemma c_float_12_3_nearest: "c_float (c_double (123 / 10)) = c_float (123 / 10)"
  by code_simp

lemma c_float_86_8: "c_float (c_double (434 / 5)) = 5688525 / 65536"
  by code_simp

lemma c_float_3_2: "c_float (c_double (16 / 5)) = 13421773 / 4194304"
  by code_simp

text \<open>What it takes to run \<^verbatim>\<open>read_byte\<close> on the example connection.\<close>

lemmas eval_read_byte =
  read_byte_def then_do_def Let_def hid_read_into_def byte_at_def uint_inc_def uint_dec_def
  log_warning_def log_debug_def log_info_def emit_def example_wmr_simps example_config_def

lemma replicate_bytes:
  "replicate 13 (0::uchar) = [0, 0, 0, 0, 0, 0, 0, 0, 0, 0, 0, 0, 0]"
  "replicate 10 (0::uchar) = [0, 0, 0, 0, 0, 0, 0, 0, 0, 0]"
  "replicate 6 (0::uchar) = [0, 0, 0, 0, 0, 0]"
  by (simp_all add: numeral_eq_Suc)

subsection \<open>The checksum of a packet\<close>

lemma sum_list_bytes_le: "sum_list (map unat (xs :: uchar list)) \<le> 255 * length xs"
proof (induction xs)
  case Nil
  show ?case by simp
next
  case (Cons x xs)
  have "unat x < 256" by (rule unat_byte_less)
  with Cons show ?case by simp
qed

text \<open>
  The loop of \<^verbatim>\<open>verify_packet\<close>, started at index \<open>i\<close> with the sum \<open>acc\<close>, adds
  the bytes from \<open>i\<close> up to the last two, modulo \<open>2 ^ 32\<close>.
\<close>

lemma verify_packet_loop_sum:
  "packet_len wmr - 2 \<le> length (packet wmr) \<Longrightarrow> i \<le> packet_len wmr - 2 \<Longrightarrow>
   acc < 2 ^ 32 \<Longrightarrow>
   verify_packet_loop wmr i acc =
     Some ((acc + sum_list (map unat (take (packet_len wmr - 2 - i) (drop i (packet wmr)))))
           mod 2 ^ 32)"
proof (induction wmr i acc rule: verify_packet_loop.induct)
  case (1 wmr i acc)
  show ?case
  proof (cases "i < packet_len wmr - 2")
    case True
    then have il: "i < length (packet wmr)" using "1.prems" by simp
    have split: "take (packet_len wmr - 2 - i) (drop i (packet wmr)) =
        packet wmr ! i # take (packet_len wmr - 2 - Suc i) (drop (Suc i) (packet wmr))"
    proof -
      have "packet_len wmr - 2 - i = Suc (packet_len wmr - 2 - Suc i)" using True by simp
      then show ?thesis using il by (simp add: Cons_nth_drop_Suc [symmetric])
    qed
    have ih: "verify_packet_loop wmr (Suc i) (uint_add acc (unat (packet wmr ! i))) =
        Some ((uint_add acc (unat (packet wmr ! i)) +
               sum_list (map unat (take (packet_len wmr - 2 - Suc i) (drop (Suc i) (packet wmr)))))
              mod 2 ^ 32)"
      using "1.IH" [OF True, of "uint (packet wmr ! i)"] True il "1.prems"
      by (simp add: byte_at_Some uint_add_def)
    have "verify_packet_loop wmr i acc =
        verify_packet_loop wmr (Suc i) (uint_add acc (unat (packet wmr ! i)))"
      using True il by (subst verify_packet_loop.simps) (simp add: byte_at_Some)
    then show ?thesis
      by (simp only: ih split) (simp add: uint_add_def mod_simps add.assoc)
  next
    case False
    then show ?thesis using "1.prems" by (subst verify_packet_loop.simps) simp
  qed
qed

text \<open>The value of \<^verbatim>\<open>verify_packet\<close> on a buffer of the declared length.\<close>

lemma verify_packet_value:
  assumes "length (packet wmr) = packet_len wmr" and "packet_len wmr \<le> 255"
  shows "verify_packet wmr =
           Ok (if 2 < packet_len wmr \<and>
                  sum_list (map unat (take (packet_len wmr - 2) (packet wmr))) =
                    unat (packet wmr ! (packet_len wmr - 2)) +
                    256 * unat (packet wmr ! (packet_len wmr - 1))
               then 0 else UINT_MINUS_ONE)"
proof (cases "packet_len wmr \<le> 2")
  case True
  then show ?thesis by (simp add: verify_packet_def)
next
  case False
  let ?n = "packet_len wmr"
  let ?body = "take (?n - 2) (packet wmr)"
  have "sum_list (map unat ?body) \<le> 255 * length ?body"
    by (rule sum_list_bytes_le)
  also have "\<dots> \<le> 255 * 255" using assms by simp
  finally have small: "sum_list (map unat ?body) < 2 ^ 32" by simp
  have loop: "verify_packet_loop wmr 0 0 = Some (sum_list (map unat ?body))"
    using verify_packet_loop_sum [of wmr 0 0] assms small by simp
  have hi: "byte_at (packet wmr) (?n - Suc 0) = Some (uint (packet wmr ! (?n - Suc 0)))"
    using False assms by (simp add: byte_at_Some)
  have lo: "byte_at (packet wmr) (?n - 2) = Some (uint (packet wmr ! (?n - 2)))"
    using False assms by (simp add: byte_at_Some)
  have cs: "nat (256 * uint (packet wmr ! (?n - Suc 0)) + uint (packet wmr ! (?n - 2))) =
            unat (packet wmr ! (?n - 2)) + 256 * unat (packet wmr ! (?n - Suc 0))"
    by (simp add: nat_add_distrib nat_mult_distrib)
  show ?thesis
    using False by (simp add: verify_packet_def loop hi lo cs)
qed

text \<open>
  \<^bold>\<open>Claim C2.\<close> For a packet buffer of the declared length \<open>packet_len\<close> (one byte of
  the stream, so at most 255), \<^verbatim>\<open>verify_packet\<close> returns 0, which is what its caller
  takes for a valid packet, if and only if \<open>packet_len > 2\<close> and the sum of the bytes
  \<open>0 .. packet_len - 3\<close>, each an unsigned 8-bit value and added without wrap-around,
  equals the 16-bit value with low byte \<open>packet[packet_len - 2]\<close> and high byte
  \<open>packet[packet_len - 1]\<close>. In every other case it returns \<^verbatim>\<open>(uint_t)(-1)\<close>, and so
  it does whenever \<open>packet_len \<le> 2\<close>.
\<close>

theorem verify_packet_checksum:
  assumes "length (packet wmr) = packet_len wmr" and "packet_len wmr \<le> 255"
  shows "verify_packet wmr =
           Ok (if 2 < packet_len wmr \<and>
                  sum_list (map unat (take (packet_len wmr - 2) (packet wmr))) =
                    unat (packet wmr ! (packet_len wmr - 2)) +
                    256 * unat (packet wmr ! (packet_len wmr - 1))
               then 0 else UINT_MINUS_ONE)"
  using assms by (rule verify_packet_value)

text \<open>
  Three packets of the example connection: one whose checksum is right, one whose
  checksum is wrong, and one of two bytes.
\<close>

theorem verify_packet_checksum_witness:
  "verify_packet ((example_wmr [])\<lparr>packet := [0xD5, 5, 1, 0xDB, 0], packet_len := 5\<rparr>) = Ok 0 \<and>
   verify_packet ((example_wmr [])\<lparr>packet := [0xD5, 5, 1, 0xDC, 0], packet_len := 5\<rparr>)
     = Ok UINT_MINUS_ONE \<and>
   verify_packet ((example_wmr [])\<lparr>packet := [0xD5, 2], packet_len := 2\<rparr>) = Ok UINT_MINUS_ONE \<and>
   UINT_MINUS_ONE \<noteq> 0"
  using verify_packet_checksum [of "(example_wmr [])\<lparr>packet := [0xD5, 5, 1, 0xDB, 0], packet_len := 5\<rparr>"]
    verify_packet_checksum [of "(example_wmr [])\<lparr>packet := [0xD5, 5, 1, 0xDC, 0], packet_len := 5\<rparr>"]
    verify_packet_checksum [of "(example_wmr [])\<lparr>packet := [0xD5, 2], packet_len := 2\<rparr>"]
  by (simp add: UINT_MINUS_ONE_def)

subsection \<open>The latest readings\<close>

text \<open>
  \<^bold>\<open>Claim C3.\<close> For a slot that holds a reading \<open>old\<close> with time \<open>T1\<close> and an incoming
  reading \<open>new\<close> with time \<open>T2\<close>: after \<^verbatim>\<open>update_if_newer\<close> the slot holds the
  incoming reading if and only if \<open>T2 \<ge> T1\<close>, and it is unchanged, still holding the
  old reading and not the incoming one, if and only if \<open>T2 < T1\<close>.
\<close>

theorem update_if_newer_iff:
  "(update_if_newer old new = new \<longleftrightarrow> time new \<ge> time old) \<and>
   (update_if_newer old new = old \<and> update_if_newer old new \<noteq> new \<longleftrightarrow> time new < time old)"
  by (auto simp: update_if_newer_def)

theorem update_if_newer_iff_witness:
  "update_if_newer \<lparr>time = 5, payload = ZEROED\<rparr> \<lparr>time = 7, payload = WMR_UVI \<lparr>index = 3\<rparr>\<rparr>
     = \<lparr>time = 7, payload = WMR_UVI \<lparr>index = 3\<rparr>\<rparr> \<and>
   update_if_newer \<lparr>time = 7, payload = ZEROED\<rparr> \<lparr>time = 7, payload = WMR_UVI \<lparr>index = 3\<rparr>\<rparr>
     = \<lparr>time = 7, payload = WMR_UVI \<lparr>index = 3\<rparr>\<rparr> \<and>
   update_if_newer \<lparr>time = 9, payload = ZEROED\<rparr> \<lparr>time = 7, payload = WMR_UVI \<lparr>index = 3\<rparr>\<rparr>
     = \<lparr>time = 9, payload = ZEROED\<rparr>"
  using update_if_newer_iff [of "\<lparr>time = 5, payload = ZEROED\<rparr>" "\<lparr>time = 7, payload = WMR_UVI \<lparr>index = 3\<rparr>\<rparr>"]
    update_if_newer_iff [of "\<lparr>time = 7, payload = ZEROED\<rparr>" "\<lparr>time = 7, payload = WMR_UVI \<lparr>index = 3\<rparr>\<rparr>"]
    update_if_newer_iff [of "\<lparr>time = 9, payload = ZEROED\<rparr>" "\<lparr>time = 7, payload = WMR_UVI \<lparr>index = 3\<rparr>\<rparr>"]
  by simp

subsection \<open>The decoders\<close>

text \<open>
  \<^bold>\<open>Claim C7.\<close> For every wind packet (13 bytes of data or more, and the 7 bytes of
  the packet that hold the time): the decoded direction is the entry of the 16-entry
  compass table at the low nibble of byte 7, so that the nibble 0 decodes to \<open>N\<close>; the
  gust speed is (256 * low nibble of byte 10 + byte 9) / 10; the average speed is
  (16 * low nibble of byte 11 + high nibble of byte 10) / 10; the wind chill is byte 12
  as it is. The two speeds are \<^verbatim>\<open>float\<close> fields and the division is the program's
  \<^verbatim>\<open>/ 10.0\<close>: the quotient is the \<^verbatim>\<open>double\<close> nearest to the tenth, stored as the
  nearest \<^verbatim>\<open>float\<close> (86.8 is stored as 5688525 / 65536). The integer sums and the
  chill are exact. That reading goes to the wind slot through \<^verbatim>\<open>update_if_newer\<close>
  and to the handlers.
\<close>

theorem process_wind_data_fields:
  assumes "12 < length data" and "6 < length (packet wmr)"
  shows "let reading =
           \<lparr>time = packet_time cfg wmr,
            payload = WMR_WIND
              \<lparr>dir = WIND_DIR_STRING ! low_nibble (data ! 7),
               gust_speed =
                 c_float (c_double (of_nat (256 * low_nibble (data ! 10) + unat (data ! 9)) / 10)),
               avg_speed =
                 c_float (c_double (of_nat (16 * low_nibble (data ! 11) + high_nibble (data ! 10)) / 10)),
               chill = of_nat (unat (data ! 12))\<rparr>\<rparr>
         in process_wind_data cfg wmr data =
              Ok (invoke_handlers reading
                   (wmr\<lparr>latest := (latest wmr)
                      \<lparr>latest_wind := update_if_newer (latest_wind (latest wmr)) reading\<rparr>\<rparr>)) \<and>
            (low_nibble (data ! 7) = 0 \<longrightarrow> WIND_DIR_STRING ! low_nibble (data ! 7) = ''N'')"
proof -
  have north: "low_nibble (data ! 7) = 0 \<longrightarrow> WIND_DIR_STRING ! low_nibble (data ! 7) = ''N''"
    by (simp add: WIND_DIR_STRING_def)
  show ?thesis
    using assms north
    by (simp add: process_wind_data_def byte_at_Some get_reading_time_Some
          table_get_WIND_DIR_LOW int_to_double_nibble_byte int_to_double_nibbles
          int_to_float_byte double_to_float_def double_div_def Let_def)
qed

text \<open>
  A wind packet of the example connection: direction nibble 0, gust bytes \<open>0x64\<close> and
  \<open>0x03\<close>, average 32 tenths, chill 20.
\<close>

theorem process_wind_data_fields_witness:
  "\<exists>wmr'. process_wind_data example_config
      ((example_wmr [])\<lparr>packet :=
         [0xD3, 16, 30, 12, 15, 6, 20, 0x00, 0x0C, 0x64, 0x03, 0x02, 0x14, 0x00, 0xBF, 0x01]\<rparr>)
      [0xD3, 16, 30, 12, 15, 6, 20, 0x00, 0x0C, 0x64, 0x03, 0x02, 0x14, 0x00, 0xBF, 0x01] = Ok wmr' \<and>
     latest_wind (latest wmr') =
       \<lparr>time = 3874307400,
        payload = WMR_WIND \<lparr>dir = ''N'', gust_speed = 5688525 / 65536,
                            avg_speed = 13421773 / 4194304, chill = 20\<rparr>\<rparr>"
  using process_wind_data_fields [of
      "[0xD3, 16, 30, 12, 15, 6, 20, 0x00, 0x0C, 0x64, 0x03, 0x02, 0x14, 0x00, 0xBF, 0x01]"
      "(example_wmr [])\<lparr>packet :=
         [0xD3, 16, 30, 12, 15, 6, 20, 0x00, 0x0C, 0x64, 0x03, 0x02, 0x14, 0x00, 0xBF, 0x01]\<rparr>"
      example_config]
  by (simp add: Let_def example_wmr_simps example_config_def invoke_handlers_def
        update_if_newer_def zero_reading_def WIND_DIR_STRING_def c_float_86_8 c_float_3_2)

text \<open>
  \<^bold>\<open>Claim C10.\<close> For every status packet, whatever its bytes, the decoded
  \<open>rtc_signal_level\<close> is \<open>ok\<close>: the flag is bit 8 of the 8-bit byte 4, which is 0. So
  the readings of two status packets never differ in that field. The other eight flags
  are the bits 0 and 1 of the bytes 4 and 2 and the bits 4 and 5 of the bytes 5 and 3.
\<close>

theorem process_status_data_rtc_ok:
  assumes "5 < length data" and "6 < length (packet wmr)"
  shows "let reading =
           \<lparr>time = packet_time cfg wmr,
            payload = WMR_STATUS
              \<lparr>wind_bat = LEVEL_STRING ! (unat (data ! 4) div 2 ^ 0 mod 2),
               temp_bat = LEVEL_STRING ! (unat (data ! 4) div 2 ^ 1 mod 2),
               rain_bat = LEVEL_STRING ! (unat (data ! 5) div 2 ^ 4 mod 2),
               uv_bat = LEVEL_STRING ! (unat (data ! 5) div 2 ^ 5 mod 2),
               wind_sensor = STATUS_STRING ! (unat (data ! 2) div 2 ^ 0 mod 2),
               temp_sensor = STATUS_STRING ! (unat (data ! 2) div 2 ^ 1 mod 2),
               rain_sensor = STATUS_STRING ! (unat (data ! 3) div 2 ^ 4 mod 2),
               uv_sensor = STATUS_STRING ! (unat (data ! 3) div 2 ^ 5 mod 2),
               rtc_signal_level = ''ok''\<rparr>\<rparr>
         in process_status_data cfg wmr data =
              Ok (invoke_handlers reading
                   (wmr\<lparr>latest := (latest wmr)
                      \<lparr>latest_status := update_if_newer (latest_status (latest wmr)) reading\<rparr>\<rparr>))"
proof -
  have rtc: "table_get LEVEL_STRING 0 = Some ''ok''"
    by (simp add: table_get_def LEVEL_STRING_def)
  have lv: "table_get LEVEL_STRING (NTH_BIT n (uint b)) = Some (LEVEL_STRING ! (unat b div 2 ^ n mod 2))"
    for n and b :: uchar
    by (simp only: NTH_BIT_byte table_get_LEVEL)
  have st: "table_get STATUS_STRING (NTH_BIT n (uint b)) = Some (STATUS_STRING ! (unat b div 2 ^ n mod 2))"
    for n and b :: uchar
    by (simp only: NTH_BIT_byte table_get_STATUS)
  have b: "byte_at data 4 = Some (uint (data ! 4))" "byte_at data 5 = Some (uint (data ! 5))"
    "byte_at data 2 = Some (uint (data ! 2))" "byte_at data 3 = Some (uint (data ! 3))"
    using assms by (simp_all add: byte_at_Some)
  show ?thesis
    using assms(2)
    by (simp add: process_status_data_def Let_def b get_reading_time_Some NTH_BIT_8_byte rtc lv st)
qed

text \<open>A status packet in which every bit of the bytes 2 to 5 is set.\<close>

theorem process_status_data_rtc_ok_witness:
  "\<exists>wmr'. process_status_data example_config
      ((example_wmr [])\<lparr>packet := [0xD9, 9, 0xFF, 0xFF, 0xFF, 0xFF, 0, 0xDE, 0x04]\<rparr>)
      [0xD9, 9, 0xFF, 0xFF, 0xFF, 0xFF, 0, 0xDE, 0x04] = Ok wmr' \<and>
     payload (latest_status (latest wmr')) =
       WMR_STATUS
         \<lparr>wind_bat = ''low'', temp_bat = ''low'', rain_bat = ''low'', uv_bat = ''low'',
          wind_sensor = ''failed'', temp_sensor = ''failed'', rain_sensor = ''failed'',
          uv_sensor = ''failed'', rtc_signal_level = ''ok''\<rparr>"
  using process_status_data_rtc_ok [of
      "[0xD9, 9, 0xFF, 0xFF, 0xFF, 0xFF, 0, 0xDE, 0x04]"
      "(example_wmr [])\<lparr>packet := [0xD9, 9, 0xFF, 0xFF, 0xFF, 0xFF, 0, 0xDE, 0x04]\<rparr>"
      example_config]
  by (simp add: Let_def example_wmr_simps example_config_def invoke_handlers_def
        update_if_newer_def zero_reading_def LEVEL_STRING_def STATUS_STRING_def)




text \<open>
  \<^bold>\<open>Claim C8.\<close> For every temperature packet whose sensor id, the low nibble of
  byte 7, is greater than 1, the decoder ends the process through \<^verbatim>\<open>exit(1)\<close>. The
  state at that moment is the state before the call with one more line on
  \<^verbatim>\<open>stderr\<close>: no reading was produced, no slot was updated and no handler was
  invoked.
\<close>

theorem process_temp_data_unknown_sensor:
  assumes "7 < length data" and "1 < low_nibble (data ! 7)"
  shows "process_temp_data cfg wmr data =
           Exited (wmr\<lparr>trace := trace wmr @ [Stderr ''Unknown sensor, ID: %i'']\<rparr>)"
  using assms by (simp add: process_temp_data_def byte_at_Some LOW_byte emit_def)

theorem process_temp_data_unknown_sensor_witness:
  "process_temp_data example_config
      ((example_wmr [])\<lparr>packet :=
         [0xD7, 16, 30, 12, 15, 6, 20, 0x02, 0x7B, 0x80, 0x37, 0x7B, 0x00, 0x0A, 0xF3, 0x02]\<rparr>)
      [0xD7, 16, 30, 12, 15, 6, 20, 0x02, 0x7B, 0x80, 0x37, 0x7B, 0x00, 0x0A, 0xF3, 0x02] =
   Exited ((example_wmr [])\<lparr>packet :=
         [0xD7, 16, 30, 12, 15, 6, 20, 0x02, 0x7B, 0x80, 0x37, 0x7B, 0x00, 0x0A, 0xF3, 0x02],
         trace := [Stderr ''Unknown sensor, ID: %i'']\<rparr>)"
  using process_temp_data_unknown_sensor [of
      "[0xD7, 16, 30, 12, 15, 6, 20, 0x02, 0x7B, 0x80, 0x37, 0x7B, 0x00, 0x0A, 0xF3, 0x02]"
      example_config
      "(example_wmr [])\<lparr>packet :=
         [0xD7, 16, 30, 12, 15, 6, 20, 0x02, 0x7B, 0x80, 0x37, 0x7B, 0x00, 0x0A, 0xF3, 0x02]\<rparr>"]
  by (simp add: example_wmr_simps)

text \<open>
  \<^bold>\<open>Claim C9\<close> says that the high nibble of byte 8 of a barometric packet, the index
  into the 7-entry forecast table, is always less than 7. It is not: the nibble ranges
  over 0 to 15 and nothing checks it. The packet below has a correct checksum and the
  nibble 7, and \<^verbatim>\<open>process_baro_data\<close> reads \<^verbatim>\<open>FORECAST_STRING[7]\<close>, one element
  past the end of the table. So does \<^verbatim>\<open>mainloop\<close> when the device sends that packet
  in two frames.
\<close>

theorem process_baro_data_forecast_out_of_bounds:
  "HIGH (uint ([0xD6, 13, 30, 12, 15, 6, 20, 0xF4, 0x73, 0xF4, 0x03, 0x94, 0x03 :: uchar] ! 8)) = 7 \<and>
   length FORECAST_STRING = 7 \<and>
   verify_packet ((example_wmr [])\<lparr>packet :=
       [0xD6, 13, 30, 12, 15, 6, 20, 0xF4, 0x73, 0xF4, 0x03, 0x94, 0x03], packet_len := 13\<rparr>) = Ok 0 \<and>
   process_baro_data example_config
     ((example_wmr [])\<lparr>packet :=
       [0xD6, 13, 30, 12, 15, 6, 20, 0xF4, 0x73, 0xF4, 0x03, 0x94, 0x03], packet_len := 13\<rparr>)
     [0xD6, 13, 30, 12, 15, 6, 20, 0xF4, 0x73, 0xF4, 0x03, 0x94, 0x03] = Fault OOB_read \<and>
   mainloop (Suc 0) example_config
     (example_wmr
        [(8, [7, 0xD6, 13, 30, 12, 15, 6, 20]), (8, [6, 0xF4, 0x73, 0xF4, 0x03, 0x94, 0x03, 0])]) =
     Fault OOB_read"
proof -
  have v: "verify_packet ((example_wmr [])\<lparr>packet :=
       [0xD6, 13, 30, 12, 15, 6, 20, 0xF4, 0x73, 0xF4, 0x03, 0x94, 0x03], packet_len := 13\<rparr>) = Ok 0"
    by (subst verify_packet_value) simp_all
  have run: "mainloop (Suc 0) example_config
     (example_wmr
        [(8, [7, 0xD6, 13, 30, 12, 15, 6, 20]), (8, [6, 0xF4, 0x73, 0xF4, 0x03, 0x94, 0x03, 0])]) =
     Fault OOB_read"
    by (simp add: eval_read_byte HISTORIC_DATA_NOTIF_def LOGGER_DATA_ERASE_def
          COMMUNICATION_STOP_def HISTORIC_DATA_def replicate_bytes act_on_packet_type.simps
          mainloop_packet_def mainloop_read_payload.simps
          verify_packet_def verify_packet_loop.simps uint_add_def UINT_MINUS_ONE_def
          time_NULL_def dispatch_packet_def process_baro_data_def
          get_reading_time_from_packet_def table_get_def FORECAST_STRING_def LOW_def HIGH_def)
  have decode: "HIGH (uint ([0xD6, 13, 30, 12, 15, 6, 20, 0xF4, 0x73, 0xF4, 0x03, 0x94, 0x03 :: uchar] ! 8)) = 7 \<and>
   length FORECAST_STRING = 7 \<and>
   process_baro_data example_config
     ((example_wmr [])\<lparr>packet :=
       [0xD6, 13, 30, 12, 15, 6, 20, 0xF4, 0x73, 0xF4, 0x03, 0x94, 0x03], packet_len := 13\<rparr>)
     [0xD6, 13, 30, 12, 15, 6, 20, 0xF4, 0x73, 0xF4, 0x03, 0x94, 0x03] = Fault OOB_read"
    by (simp add: HIGH_def LOW_def Let_def FORECAST_STRING_def process_baro_data_def byte_at_def
         get_reading_time_from_packet_def table_get_def)
  from decode v run show ?thesis by blast
qed

subsection \<open>Slots never go back in time\<close>

lemma kept_or_newer_iff: "kept_or_newer old new \<longleftrightarrow> time old \<le> time new"
  by (auto simp: kept_or_newer_def)

lemma kept_or_newer_update: "kept_or_newer old (update_if_newer old new)"
  by (simp add: kept_or_newer_iff update_if_newer_def)

lemma list_all2_kept_refl: "list_all2 kept_or_newer xs xs"
  by (simp add: list_all2_same kept_or_newer_iff)

lemma list_all2_kept_update:
  "i < length xs \<Longrightarrow> list_all2 kept_or_newer xs (xs[i := update_if_newer (xs ! i) r])"
  by (simp add: list_all2_conv_all_nth nth_list_update kept_or_newer_iff update_if_newer_def)

lemma store_kept_or_newer_refl: "store_kept_or_newer l l"
  by (simp add: store_kept_or_newer_def kept_or_newer_iff list_all2_kept_refl)

lemma kept_or_newer_trans:
  "kept_or_newer a b \<Longrightarrow> kept_or_newer b c \<Longrightarrow> kept_or_newer a c"
  by (simp add: kept_or_newer_iff)

lemma list_all2_kept_trans:
  "list_all2 kept_or_newer xs ys \<Longrightarrow> list_all2 kept_or_newer ys zs \<Longrightarrow>
   list_all2 kept_or_newer xs zs"
  by (rule list_all2_trans [of kept_or_newer kept_or_newer kept_or_newer])
     (rule kept_or_newer_trans)

lemma store_kept_or_newer_trans:
  assumes ab: "store_kept_or_newer a b" and bc: "store_kept_or_newer b c"
  shows "store_kept_or_newer a c"
proof -
  note A = ab [unfolded store_kept_or_newer_def]
  note B = bc [unfolded store_kept_or_newer_def]
  have "kept_or_newer (latest_wind a) (latest_wind c)"
    using A B by (blast intro: kept_or_newer_trans)
  moreover have "kept_or_newer (latest_rain a) (latest_rain c)"
    using A B by (blast intro: kept_or_newer_trans)
  moreover have "kept_or_newer (latest_uvi a) (latest_uvi c)"
    using A B by (blast intro: kept_or_newer_trans)
  moreover have "kept_or_newer (latest_baro a) (latest_baro c)"
    using A B by (blast intro: kept_or_newer_trans)
  moreover have "kept_or_newer (latest_status a) (latest_status c)"
    using A B by (blast intro: kept_or_newer_trans)
  moreover have "kept_or_newer (latest_meta a) (latest_meta c)"
    using A B by (blast intro: kept_or_newer_trans)
  moreover have "length (latest_temp c) = length (latest_temp a)"
    using A B by simp
  moreover have "list_all2 kept_or_newer (latest_temp a) (latest_temp c)"
    using A B by (blast intro: list_all2_kept_trans)
  ultimately show ?thesis
    unfolding store_kept_or_newer_def by blast
qed

lemma store_step_refl: "store_step wmr wmr"
  by (simp add: store_step_def store_kept_or_newer_refl)

lemma store_step_trans: "store_step a b \<Longrightarrow> store_step b c \<Longrightarrow> store_step a c"
  by (auto simp: store_step_def intro: store_kept_or_newer_trans)

subsection \<open>What a decoder that returns has done\<close>

lemma case_option_Ok_ex:
  assumes "(case m of None \<Rightarrow> Fault e | Some r \<Rightarrow> Ok (f r)) = Ok w"
    and "\<And>r. m = Some r \<Longrightarrow> P r"
  shows "\<exists>r. P r \<and> w = f r"
  using assms by (cases m) auto

lemma process_wind_data_shape:
  assumes "process_wind_data cfg wmr data = Ok wmr'"
  shows "\<exists>r. \<not> is_temp (payload r) \<and>
       wmr' = invoke_handlers r (wmr\<lparr>latest := (latest wmr)
                \<lparr>latest_wind := update_if_newer (latest_wind (latest wmr)) r\<rparr>\<rparr>)"
  using assms [unfolded process_wind_data_def]
  by (rule case_option_Ok_ex) (clarsimp simp: bind_eq_Some_conv Let_def)

lemma process_rain_data_shape:
  assumes "process_rain_data cfg wmr data = Ok wmr'"
  shows "\<exists>r. \<not> is_temp (payload r) \<and>
       wmr' = invoke_handlers r (wmr\<lparr>latest := (latest wmr)
                \<lparr>latest_rain := update_if_newer (latest_rain (latest wmr)) r\<rparr>\<rparr>)"
  using assms [unfolded process_rain_data_def]
  by (rule case_option_Ok_ex) (clarsimp simp: bind_eq_Some_conv Let_def)

lemma process_uvi_data_shape:
  assumes "process_uvi_data cfg wmr data = Ok wmr'"
  shows "\<exists>r. \<not> is_temp (payload r) \<and>
       wmr' = invoke_handlers r (wmr\<lparr>latest := (latest wmr)
                \<lparr>latest_uvi := update_if_newer (latest_uvi (latest wmr)) r\<rparr>\<rparr>)"
  using assms [unfolded process_uvi_data_def]
  by (rule case_option_Ok_ex) (clarsimp simp: bind_eq_Some_conv Let_def)

lemma process_baro_data_shape:
  assumes "process_baro_data cfg wmr data = Ok wmr'"
  shows "\<exists>r. \<not> is_temp (payload r) \<and>
       wmr' = invoke_handlers r (wmr\<lparr>latest := (latest wmr)
                \<lparr>latest_baro := update_if_newer (latest_baro (latest wmr)) r\<rparr>\<rparr>)"
  using assms [unfolded process_baro_data_def]
  by (rule case_option_Ok_ex) (clarsimp simp: bind_eq_Some_conv Let_def)

lemma process_status_data_shape:
  assumes "process_status_data cfg wmr data = Ok wmr'"
  shows "\<exists>r. \<not> is_temp (payload r) \<and>
       wmr' = invoke_handlers r (wmr\<lparr>latest := (latest wmr)
                \<lparr>latest_status := update_if_newer (latest_status (latest wmr)) r\<rparr>\<rparr>)"
  using assms [unfolded process_status_data_def]
  by (rule case_option_Ok_ex) (clarsimp simp: bind_eq_Some_conv Let_def)

lemma case_option_if_Ok_ex:
  assumes "(case m of None \<Rightarrow> Fault e | Some r \<Rightarrow> if c then Ok (f r) else Fault e') = Ok w"
    and "\<And>r. m = Some r \<Longrightarrow> P r"
  shows "c \<and> (\<exists>r. P r \<and> w = f r)"
  using assms by (cases m) (auto split: if_splits)

lemma process_temp_data_shape:
  assumes "process_temp_data cfg wmr data = Ok wmr'"
  shows "\<exists>r i. is_temp (payload r) \<and> i < length (latest_temp (latest wmr)) \<and>
       wmr' = invoke_handlers r (wmr\<lparr>latest := (latest wmr)
                \<lparr>latest_temp := (latest_temp (latest wmr))
                    [i := update_if_newer (latest_temp (latest wmr) ! i) r]\<rparr>\<rparr>)"
proof -
  from assms obtain d7 where d7: "byte_at data 7 = Some d7"
    by (cases "byte_at data 7") (simp_all add: process_temp_data_def)
  have known: "(1 < LOW d7) = False"
  proof (cases "1 < LOW d7")
    case True
    then show ?thesis using assms by (simp add: process_temp_data_def d7 Let_def)
  next
    case False
    then show ?thesis by simp
  qed
  have "nat (LOW d7) < length (latest_temp (latest wmr)) \<and>
        (\<exists>r. is_temp (payload r) \<and>
           wmr' = invoke_handlers r (wmr\<lparr>latest := (latest wmr)
                \<lparr>latest_temp := (latest_temp (latest wmr))
                    [nat (LOW d7) := update_if_newer (latest_temp (latest wmr) ! nat (LOW d7)) r]\<rparr>\<rparr>))"
    using assms [unfolded process_temp_data_def d7 option.case Let_def known if_False]
    by (rule case_option_if_Ok_ex) (clarsimp simp: bind_eq_Some_conv)
  then show ?thesis by blast
qed

lemma process_temp_data_Exited:
  "process_temp_data cfg wmr data = Exited wmr' \<Longrightarrow> latest wmr' = latest wmr"
  by (auto simp: process_temp_data_def Let_def emit_def split: option.splits if_splits)

lemma process_temp_data_not_Blocked [simp]:
  "process_temp_data cfg wmr data \<noteq> Blocked wmr'"
  by (auto simp: process_temp_data_def Let_def split: option.splits if_splits)

lemma store_step_slot:
  assumes "store_kept_or_newer (latest wmr) l" and "latest_meta l = latest_meta (latest wmr)"
  shows "store_step wmr (invoke_handlers r (wmr\<lparr>latest := l\<rparr>))"
  using assms by (simp add: store_step_def invoke_handlers_def)

lemma delivers_slot:
  assumes "is_temp (payload r) = t"
    and "store_kept_or_newer (latest wmr) l" and "latest_meta l = latest_meta (latest wmr)"
  shows "delivers t wmr (invoke_handlers r (wmr\<lparr>latest := l\<rparr>))"
  unfolding delivers_def
proof (intro conjI)
  show "\<exists>ra. is_temp (payload ra) = t \<and>
      trace (invoke_handlers r (wmr\<lparr>latest := l\<rparr>)) = trace wmr @ map (\<lambda>h. Invoke h ra) (handler wmr)"
    using assms(1) by (intro exI [of _ r]) (simp add: invoke_handlers_def)
  show "handler (invoke_handlers r (wmr\<lparr>latest := l\<rparr>)) = handler wmr"
    by (simp add: invoke_handlers_def)
  show "store_step wmr (invoke_handlers r (wmr\<lparr>latest := l\<rparr>))"
    using assms(2,3) by (rule store_step_slot)
qed

lemma process_wind_data_delivers:
  assumes "process_wind_data cfg wmr data = Ok wmr'"
  shows "delivers False wmr wmr'"
proof -
  from process_wind_data_shape [OF assms] obtain r where
    r: "\<not> is_temp (payload r)" and w: "wmr' = invoke_handlers r (wmr\<lparr>latest := (latest wmr)
                \<lparr>latest_wind := update_if_newer (latest_wind (latest wmr)) r\<rparr>\<rparr>)"
    by blast
  show ?thesis
    unfolding w using r
    by (intro delivers_slot)
       (simp_all add: store_kept_or_newer_def kept_or_newer_iff update_if_newer_def list_all2_kept_refl)
qed

lemma process_rain_data_delivers:
  assumes "process_rain_data cfg wmr data = Ok wmr'"
  shows "delivers False wmr wmr'"
proof -
  from process_rain_data_shape [OF assms] obtain r where
    r: "\<not> is_temp (payload r)" and w: "wmr' = invoke_handlers r (wmr\<lparr>latest := (latest wmr)
                \<lparr>latest_rain := update_if_newer (latest_rain (latest wmr)) r\<rparr>\<rparr>)"
    by blast
  show ?thesis
    unfolding w using r
    by (intro delivers_slot)
       (simp_all add: store_kept_or_newer_def kept_or_newer_iff update_if_newer_def list_all2_kept_refl)
qed

lemma process_uvi_data_delivers:
  assumes "process_uvi_data cfg wmr data = Ok wmr'"
  shows "delivers False wmr wmr'"
proof -
  from process_uvi_data_shape [OF assms] obtain r where
    r: "\<not> is_temp (payload r)" and w: "wmr' = invoke_handlers r (wmr\<lparr>latest := (latest wmr)
                \<lparr>latest_uvi := update_if_newer (latest_uvi (latest wmr)) r\<rparr>\<rparr>)"
    by blast
  show ?thesis
    unfolding w using r
    by (intro delivers_slot)
       (simp_all add: store_kept_or_newer_def kept_or_newer_iff update_if_newer_def list_all2_kept_refl)
qed

lemma process_baro_data_delivers:
  assumes "process_baro_data cfg wmr data = Ok wmr'"
  shows "delivers False wmr wmr'"
proof -
  from process_baro_data_shape [OF assms] obtain r where
    r: "\<not> is_temp (payload r)" and w: "wmr' = invoke_handlers r (wmr\<lparr>latest := (latest wmr)
                \<lparr>latest_baro := update_if_newer (latest_baro (latest wmr)) r\<rparr>\<rparr>)"
    by blast
  show ?thesis
    unfolding w using r
    by (intro delivers_slot)
       (simp_all add: store_kept_or_newer_def kept_or_newer_iff update_if_newer_def list_all2_kept_refl)
qed

lemma process_status_data_delivers:
  assumes "process_status_data cfg wmr data = Ok wmr'"
  shows "delivers False wmr wmr'"
proof -
  from process_status_data_shape [OF assms] obtain r where
    r: "\<not> is_temp (payload r)" and w: "wmr' = invoke_handlers r (wmr\<lparr>latest := (latest wmr)
                \<lparr>latest_status := update_if_newer (latest_status (latest wmr)) r\<rparr>\<rparr>)"
    by blast
  show ?thesis
    unfolding w using r
    by (intro delivers_slot)
       (simp_all add: store_kept_or_newer_def kept_or_newer_iff update_if_newer_def list_all2_kept_refl)
qed

lemma process_temp_data_delivers:
  assumes "process_temp_data cfg wmr data = Ok wmr'"
  shows "delivers True wmr wmr'"
proof -
  from process_temp_data_shape [OF assms] obtain r i where
    r: "is_temp (payload r)" and i: "i < length (latest_temp (latest wmr))"
    and w: "wmr' = invoke_handlers r (wmr\<lparr>latest := (latest wmr)
                \<lparr>latest_temp := (latest_temp (latest wmr))
                    [i := update_if_newer (latest_temp (latest wmr) ! i) r]\<rparr>\<rparr>)"
    by blast
  show ?thesis
    unfolding w using r i
    by (intro delivers_slot)
       (simp_all add: store_kept_or_newer_def kept_or_newer_iff list_all2_kept_update)
qed

subsection \<open>Historic records\<close>

lemma then_do_simps [simp]:
  "then_do (Ok x) f = f x"
  "then_do (Exited s) f = Exited s"
  "then_do (Blocked s) f = Blocked s"
  "then_do (Fault e) f = Fault e"
  by (simp_all add: then_do_def)

lemma then_do_Ok:
  "then_do r f = Ok w' \<Longrightarrow> \<exists>w. r = Ok w \<and> f w = Ok w'"
  by (cases r) simp_all

lemma foldl_then_do_stops:
  "foldl (\<lambda>r i. then_do r (g i)) (Exited s) xs = Exited s"
  "foldl (\<lambda>r i. then_do r (g i)) (Blocked s) xs = Blocked s"
  "foldl (\<lambda>r i. then_do r (g i)) (Fault e) xs = Fault e"
  by (induction xs) simp_all

lemma process_historic_data_loop_foldl:
  "i \<le> n \<Longrightarrow>
   process_historic_data_loop cfg data n i wmr =
     foldl (\<lambda>r i. then_do r (\<lambda>wmr. process_temp_data cfg wmr (drop (33 + 7 * i) data)))
       (Ok wmr) [i..<n]"
proof (induction cfg data n i wmr rule: process_historic_data_loop.induct)
  case (1 cfg data n i wmr)
  show ?case
  proof (cases "i < n")
    case True
    then have upt: "[i..<n] = i # [Suc i..<n]" by (simp add: upt_conv_Cons)
    show ?thesis
    proof (cases "process_temp_data cfg wmr (drop (33 + 7 * i) data)")
      case (Ok wmr')
      with True "1.IH" [OF True Ok] show ?thesis
        by (subst process_historic_data_loop.simps) (simp add: upt)
    next
      case (Exited wmr')
      with True show ?thesis
        by (subst process_historic_data_loop.simps) (simp add: upt foldl_then_do_stops)
    next
      case (Blocked wmr')
      with True show ?thesis
        by (subst process_historic_data_loop.simps) (simp add: upt foldl_then_do_stops)
    next
      case (Fault e)
      with True show ?thesis
        by (subst process_historic_data_loop.simps) (simp add: upt foldl_then_do_stops)
    qed
  next
    case False
    with "1.prems" show ?thesis
      by (subst process_historic_data_loop.simps) simp
  qed
qed

lemma filter_warning_deliveries [simp]:
  "filter is_warning (map (\<lambda>h. Invoke h r) hs) = []"
  by (induction hs) simp_all

lemma filter_temp_deliveries [simp]:
  "filter is_temp_delivery (map (\<lambda>h. Invoke h r) hs) =
     (if is_temp (payload r) then map (\<lambda>h. Invoke h r) hs else [])"
  by (induction hs) simp_all

lemma process_historic_data_loop_Ok:
  "process_historic_data_loop cfg data n i wmr = Ok wmr' \<Longrightarrow> i \<le> n \<Longrightarrow>
   \<exists>new. trace wmr' = trace wmr @ new \<and> list_all is_temp_delivery new \<and>
         length new = (n - i) * length (handler wmr) \<and> handler wmr' = handler wmr"
proof (induction cfg data n i wmr rule: process_historic_data_loop.induct)
  case (1 cfg data n i wmr)
  show ?case
  proof (cases "i < n")
    case True
    from "1.prems"(1) True obtain w where
      step: "process_temp_data cfg wmr (drop (33 + 7 * i) data) = Ok w"
      and rest: "process_historic_data_loop cfg data n (Suc i) w = Ok wmr'"
      by (subst (asm) process_historic_data_loop.simps) (auto split: result.splits)
    from process_temp_data_delivers [OF step] obtain r where
      r: "is_temp (payload r)" and tr: "trace w = trace wmr @ map (\<lambda>h. Invoke h r) (handler wmr)"
      and h: "handler w = handler wmr"
      by (auto simp: delivers_def)
    from "1.IH" [OF True step rest] True obtain new where
      new: "trace wmr' = trace w @ new" "list_all is_temp_delivery new"
        "length new = (n - Suc i) * length (handler w)" "handler wmr' = handler w"
      by auto
    have "trace wmr' = trace wmr @ (map (\<lambda>h. Invoke h r) (handler wmr) @ new)"
      using new(1) tr by simp
    moreover have "list_all is_temp_delivery (map (\<lambda>h. Invoke h r) (handler wmr) @ new)"
      using new(2) r by (auto simp: list_all_iff)
    moreover have "length (map (\<lambda>h. Invoke h r) (handler wmr) @ new) = (n - i) * length (handler wmr)"
    proof -
      have "n - i = Suc (n - Suc i)" using True by simp
      then show ?thesis using new(3) h by simp
    qed
    moreover have "handler wmr' = handler wmr" using new(4) h by simp
    ultimately show ?thesis by blast
  next
    case False
    with "1.prems" have "wmr' = wmr"
      by (subst (asm) process_historic_data_loop.simps) simp
    with False "1.prems" show ?thesis by simp
  qed
qed


lemma process_historic_data_Ok:
  assumes ok: "process_historic_data cfg wmr data = Ok wmr'"
  shows "\<exists>w5 d32 before.
           byte_at data 32 = Some d32 \<and>
           trace w5 = trace wmr @ before \<and> filter is_warning before = [] \<and>
           length (filter is_temp_delivery before) = length (handler wmr) \<and>
           handler w5 = handler wmr \<and>
           process_historic_data_loop cfg data (min (nat d32) (WMR200_MAX_TEMP_SENSORS cfg)) 0
             (if nat d32 > WMR200_MAX_TEMP_SENSORS cfg
              then log_warning
                ''process_historic_data: too many external sensors, skipping extraneous sensors'' w5
              else w5) = Ok wmr'"
proof -
  from ok [unfolded process_historic_data_def] obtain w1 where
    s1: "process_rain_data cfg wmr data = Ok w1" and
    k1: "then_do (process_wind_data cfg w1 (drop 13 data)) (\<lambda>wmr.
     then_do (process_uvi_data cfg wmr (drop 20 data)) (\<lambda>wmr.
     then_do (process_baro_data cfg wmr (drop 21 data)) (\<lambda>wmr.
     then_do (process_temp_data cfg wmr (drop 26 data)) (\<lambda>wmr.
       (case byte_at data 32 of
          None \<Rightarrow> Fault OOB_read
        | Some d32 \<Rightarrow>
            let ext_sensor_count = nat d32;
                wmr = (if ext_sensor_count > WMR200_MAX_TEMP_SENSORS cfg
                       then log_warning
                         ''process_historic_data: too many external sensors, skipping extraneous sensors''
                         wmr
                       else wmr);
                ext_sensor_count = min ext_sensor_count (WMR200_MAX_TEMP_SENSORS cfg)
            in process_historic_data_loop cfg data ext_sensor_count 0 wmr))))) = Ok wmr'"
    by (blast dest: then_do_Ok)
  from k1 obtain w2 where
    s2: "process_wind_data cfg w1 (drop 13 data) = Ok w2" and
    k2: "then_do (process_uvi_data cfg w2 (drop 20 data)) (\<lambda>wmr.
     then_do (process_baro_data cfg wmr (drop 21 data)) (\<lambda>wmr.
     then_do (process_temp_data cfg wmr (drop 26 data)) (\<lambda>wmr.
       (case byte_at data 32 of
          None \<Rightarrow> Fault OOB_read
        | Some d32 \<Rightarrow>
            let ext_sensor_count = nat d32;
                wmr = (if ext_sensor_count > WMR200_MAX_TEMP_SENSORS cfg
                       then log_warning
                         ''process_historic_data: too many external sensors, skipping extraneous sensors''
                         wmr
                       else wmr);
                ext_sensor_count = min ext_sensor_count (WMR200_MAX_TEMP_SENSORS cfg)
            in process_historic_data_loop cfg data ext_sensor_count 0 wmr)))) = Ok wmr'"
    by (blast dest: then_do_Ok)
  from k2 obtain w3 where
    s3: "process_uvi_data cfg w2 (drop 20 data) = Ok w3" and
    k3: "then_do (process_baro_data cfg w3 (drop 21 data)) (\<lambda>wmr.
     then_do (process_temp_data cfg wmr (drop 26 data)) (\<lambda>wmr.
       (case byte_at data 32 of
          None \<Rightarrow> Fault OOB_read
        | Some d32 \<Rightarrow>
            let ext_sensor_count = nat d32;
                wmr = (if ext_sensor_count > WMR200_MAX_TEMP_SENSORS cfg
                       then log_warning
                         ''process_historic_data: too many external sensors, skipping extraneous sensors''
                         wmr
                       else wmr);
                ext_sensor_count = min ext_sensor_count (WMR200_MAX_TEMP_SENSORS cfg)
            in process_historic_data_loop cfg data ext_sensor_count 0 wmr))) = Ok wmr'"
    by (blast dest: then_do_Ok)
  from k3 obtain w4 where
    s4: "process_baro_data cfg w3 (drop 21 data) = Ok w4" and
    k4: "then_do (process_temp_data cfg w4 (drop 26 data)) (\<lambda>wmr.
       (case byte_at data 32 of
          None \<Rightarrow> Fault OOB_read
        | Some d32 \<Rightarrow>
            let ext_sensor_count = nat d32;
                wmr = (if ext_sensor_count > WMR200_MAX_TEMP_SENSORS cfg
                       then log_warning
                         ''process_historic_data: too many external sensors, skipping extraneous sensors''
                         wmr
                       else wmr);
                ext_sensor_count = min ext_sensor_count (WMR200_MAX_TEMP_SENSORS cfg)
            in process_historic_data_loop cfg data ext_sensor_count 0 wmr)) = Ok wmr'"
    by (blast dest: then_do_Ok)
  from k4 obtain w5 where
    s5: "process_temp_data cfg w4 (drop 26 data) = Ok w5" and
    k5: "(case byte_at data 32 of
          None \<Rightarrow> Fault OOB_read
        | Some d32 \<Rightarrow>
            let ext_sensor_count = nat d32;
                wmr = (if ext_sensor_count > WMR200_MAX_TEMP_SENSORS cfg
                       then log_warning
                         ''process_historic_data: too many external sensors, skipping extraneous sensors''
                         w5
                       else w5);
                ext_sensor_count = min ext_sensor_count (WMR200_MAX_TEMP_SENSORS cfg)
            in process_historic_data_loop cfg data ext_sensor_count 0 wmr) = Ok wmr'"
    by (blast dest: then_do_Ok)
  from k5 obtain d32 where d32: "byte_at data 32 = Some d32"
    by (cases "byte_at data 32") simp_all
  from process_rain_data_delivers [OF s1] obtain r1 where
    d1: "\<not> is_temp (payload r1)" "trace w1 = trace wmr @ map (\<lambda>h. Invoke h r1) (handler wmr)"
      "handler w1 = handler wmr"
    by (auto simp: delivers_def)
  from process_wind_data_delivers [OF s2] obtain r2 where
    d2: "\<not> is_temp (payload r2)" "trace w2 = trace w1 @ map (\<lambda>h. Invoke h r2) (handler w1)"
      "handler w2 = handler w1"
    by (auto simp: delivers_def)
  from process_uvi_data_delivers [OF s3] obtain r3 where
    d3: "\<not> is_temp (payload r3)" "trace w3 = trace w2 @ map (\<lambda>h. Invoke h r3) (handler w2)"
      "handler w3 = handler w2"
    by (auto simp: delivers_def)
  from process_baro_data_delivers [OF s4] obtain r4 where
    d4: "\<not> is_temp (payload r4)" "trace w4 = trace w3 @ map (\<lambda>h. Invoke h r4) (handler w3)"
      "handler w4 = handler w3"
    by (auto simp: delivers_def)
  from process_temp_data_delivers [OF s5] obtain r5 where
    d5: "is_temp (payload r5)" "trace w5 = trace w4 @ map (\<lambda>h. Invoke h r5) (handler w4)"
      "handler w5 = handler w4"
    by (auto simp: delivers_def)
  let ?before = "map (\<lambda>h. Invoke h r1) (handler wmr) @ map (\<lambda>h. Invoke h r2) (handler wmr) @
     map (\<lambda>h. Invoke h r3) (handler wmr) @ map (\<lambda>h. Invoke h r4) (handler wmr) @
     map (\<lambda>h. Invoke h r5) (handler wmr)"
  have h5: "handler w5 = handler wmr" using d1 d2 d3 d4 d5 by simp
  have t5: "trace w5 = trace wmr @ ?before" using d1 d2 d3 d4 d5 by simp
  have nw: "filter is_warning ?before = []" by simp
  have nt: "length (filter is_temp_delivery ?before) = length (handler wmr)"
    using d1(1) d2(1) d3(1) d4(1) d5(1) by simp
  have loop: "process_historic_data_loop cfg data (min (nat d32) (WMR200_MAX_TEMP_SENSORS cfg)) 0
             (if nat d32 > WMR200_MAX_TEMP_SENSORS cfg
              then log_warning
                ''process_historic_data: too many external sensors, skipping extraneous sensors'' w5
              else w5) = Ok wmr'"
    using k5 by (simp add: d32 Let_def)
  from d32 t5 nw nt h5 loop show ?thesis by blast
qed

text \<open>
  \<^bold>\<open>Claim C6.\<close> For every historic record whose byte 32, the number of external
  sensors, exceeds \<^verbatim>\<open>WMR200_MAX_TEMP_SENSORS\<close>: after the five decoders of the fixed
  part the decoder emits one warning and then calls the temperature decoder for the
  external sensors \<open>0\<close> up to the maximum, at \<open>data + 33 + 7 * i\<close>, each call only if
  the one before returned; it makes no call for an excess sensor. When the decoder
  returns, the trace has grown by the deliveries of the fixed part (one of them a
  temperature reading for each handler, and no warning), then exactly one warning, then
  exactly as many temperature readings for each handler as the maximum.
\<close>

theorem process_historic_data_clamps:
  assumes "32 < length data" and "WMR200_MAX_TEMP_SENSORS cfg < unat (data ! 32)"
  shows "process_historic_data cfg wmr data =
           then_do (process_rain_data cfg wmr data) (\<lambda>wmr.
           then_do (process_wind_data cfg wmr (drop 13 data)) (\<lambda>wmr.
           then_do (process_uvi_data cfg wmr (drop 20 data)) (\<lambda>wmr.
           then_do (process_baro_data cfg wmr (drop 21 data)) (\<lambda>wmr.
           then_do (process_temp_data cfg wmr (drop 26 data)) (\<lambda>wmr.
             foldl (\<lambda>r i. then_do r (\<lambda>wmr. process_temp_data cfg wmr (drop (33 + 7 * i) data)))
               (Ok (log_warning
                 ''process_historic_data: too many external sensors, skipping extraneous sensors''
                 wmr))
               [0..<WMR200_MAX_TEMP_SENSORS cfg]))))) \<and>
         (\<forall>wmr'. process_historic_data cfg wmr data = Ok wmr' \<longrightarrow>
            (\<exists>before after.
               trace wmr' = trace wmr @ before @
                 [Log_warning
                   ''process_historic_data: too many external sensors, skipping extraneous sensors'']
                 @ after \<and>
               filter is_warning before = [] \<and>
               length (filter is_temp_delivery before) = length (handler wmr) \<and>
               list_all is_temp_delivery after \<and>
               length after = WMR200_MAX_TEMP_SENSORS cfg * length (handler wmr)))"
proof (intro conjI allI impI)
  have count: "nat (uint (data ! 32)) = unat (data ! 32)" by simp
  show "process_historic_data cfg wmr data =
           then_do (process_rain_data cfg wmr data) (\<lambda>wmr.
           then_do (process_wind_data cfg wmr (drop 13 data)) (\<lambda>wmr.
           then_do (process_uvi_data cfg wmr (drop 20 data)) (\<lambda>wmr.
           then_do (process_baro_data cfg wmr (drop 21 data)) (\<lambda>wmr.
           then_do (process_temp_data cfg wmr (drop 26 data)) (\<lambda>wmr.
             foldl (\<lambda>r i. then_do r (\<lambda>wmr. process_temp_data cfg wmr (drop (33 + 7 * i) data)))
               (Ok (log_warning
                 ''process_historic_data: too many external sensors, skipping extraneous sensors''
                 wmr))
               [0..<WMR200_MAX_TEMP_SENSORS cfg])))))"
    using assms
    by (simp add: process_historic_data_def byte_at_Some Let_def count
          process_historic_data_loop_foldl min_def)
next
  fix wmr'
  assume ok: "process_historic_data cfg wmr data = Ok wmr'"
  let ?msg = "''process_historic_data: too many external sensors, skipping extraneous sensors''"
  from process_historic_data_Ok [OF ok] obtain w5 d32 before where
    d32: "byte_at data 32 = Some d32" and
    t5: "trace w5 = trace wmr @ before" and nw: "filter is_warning before = []" and
    nt: "length (filter is_temp_delivery before) = length (handler wmr)" and
    h5: "handler w5 = handler wmr" and
    loop: "process_historic_data_loop cfg data (min (nat d32) (WMR200_MAX_TEMP_SENSORS cfg)) 0
             (if nat d32 > WMR200_MAX_TEMP_SENSORS cfg then log_warning ?msg w5 else w5) = Ok wmr'"
    by blast
  from d32 assms(1) have "d32 = uint (data ! 32)" by (simp add: byte_at_Some)
  with assms(2) have big: "WMR200_MAX_TEMP_SENSORS cfg < nat d32" by simp
  with loop have loop':
    "process_historic_data_loop cfg data (WMR200_MAX_TEMP_SENSORS cfg) 0 (log_warning ?msg w5) = Ok wmr'"
    by (simp add: min_def)
  from process_historic_data_loop_Ok [OF loop'] obtain after where
    a: "trace wmr' = trace (log_warning ?msg w5) @ after" "list_all is_temp_delivery after"
      "length after = WMR200_MAX_TEMP_SENSORS cfg * length (handler (log_warning ?msg w5))"
    by auto
  have "trace wmr' = trace wmr @ before @ [Log_warning ?msg] @ after"
    using a(1) t5 by (simp add: log_warning_def emit_def)
  moreover have "length after = WMR200_MAX_TEMP_SENSORS cfg * length (handler wmr)"
    using a(3) h5 by (simp add: log_warning_def emit_def)
  ultimately show "\<exists>before after.
               trace wmr' = trace wmr @ before @ [Log_warning ?msg] @ after \<and>
               filter is_warning before = [] \<and>
               length (filter is_temp_delivery before) = length (handler wmr) \<and>
               list_all is_temp_delivery after \<and>
               length after = WMR200_MAX_TEMP_SENSORS cfg * length (handler wmr)"
    using nw nt a(2) by blast
qed

text \<open>
  The example record with a maximum of 2 and one handler: one warning, and three
  temperature readings (the primary sensor and two external ones, not 200).
\<close>

theorem process_historic_data_clamps_witness:
  "\<exists>wmr'. process_historic_data example_config
       ((example_wmr [])\<lparr>packet := example_historic\<rparr>) example_historic = Ok wmr' \<and>
     length (filter is_warning (trace wmr')) = 1 \<and>
     length (filter is_temp_delivery (trace wmr')) = 3"
  using process_historic_data_clamps [of example_historic example_config
      "(example_wmr [])\<lparr>packet := example_historic\<rparr>", THEN conjunct1]
  by (simp add: example_historic_def example_config_def example_wmr_simps
        process_rain_data_def process_wind_data_def process_uvi_data_def process_baro_data_def
        process_temp_data_def byte_at_def get_reading_time_from_packet_def table_get_def
        LOW_def HIGH_def Let_def invoke_handlers_def update_if_newer_def zero_reading_def
        log_warning_def emit_def upt_rec WIND_DIR_STRING_def FORECAST_STRING_def
        SIGN_NEGATIVE_def TENTH_OF_INCH_def)

subsection \<open>Every write of a decoder goes through \<^verbatim>\<open>update_if_newer\<close>\<close>

lemma case_option_final:
  "final (case m of None \<Rightarrow> Fault e | Some r \<Rightarrow> Ok (f r)) = Some w \<Longrightarrow>
   (case m of None \<Rightarrow> Fault e | Some r \<Rightarrow> Ok (f r)) = Ok w"
  by (cases m) simp_all

lemma process_wind_data_store:
  "final (process_wind_data cfg wmr data) = Some wmr' \<Longrightarrow> store_step wmr wmr'"
proof -
  assume "final (process_wind_data cfg wmr data) = Some wmr'"
  then have "process_wind_data cfg wmr data = Ok wmr'"
    unfolding process_wind_data_def by (rule case_option_final)
  from process_wind_data_delivers [OF this] show ?thesis by (simp add: delivers_def)
qed

lemma process_rain_data_store:
  "final (process_rain_data cfg wmr data) = Some wmr' \<Longrightarrow> store_step wmr wmr'"
proof -
  assume "final (process_rain_data cfg wmr data) = Some wmr'"
  then have "process_rain_data cfg wmr data = Ok wmr'"
    unfolding process_rain_data_def by (rule case_option_final)
  from process_rain_data_delivers [OF this] show ?thesis by (simp add: delivers_def)
qed

lemma process_uvi_data_store:
  "final (process_uvi_data cfg wmr data) = Some wmr' \<Longrightarrow> store_step wmr wmr'"
proof -
  assume "final (process_uvi_data cfg wmr data) = Some wmr'"
  then have "process_uvi_data cfg wmr data = Ok wmr'"
    unfolding process_uvi_data_def by (rule case_option_final)
  from process_uvi_data_delivers [OF this] show ?thesis by (simp add: delivers_def)
qed

lemma process_baro_data_store:
  "final (process_baro_data cfg wmr data) = Some wmr' \<Longrightarrow> store_step wmr wmr'"
proof -
  assume "final (process_baro_data cfg wmr data) = Some wmr'"
  then have "process_baro_data cfg wmr data = Ok wmr'"
    unfolding process_baro_data_def by (rule case_option_final)
  from process_baro_data_delivers [OF this] show ?thesis by (simp add: delivers_def)
qed

lemma process_status_data_store:
  "final (process_status_data cfg wmr data) = Some wmr' \<Longrightarrow> store_step wmr wmr'"
proof -
  assume "final (process_status_data cfg wmr data) = Some wmr'"
  then have "process_status_data cfg wmr data = Ok wmr'"
    unfolding process_status_data_def by (rule case_option_final)
  from process_status_data_delivers [OF this] show ?thesis by (simp add: delivers_def)
qed

lemma process_temp_data_store:
  assumes "final (process_temp_data cfg wmr data) = Some wmr'"
  shows "store_step wmr wmr'"
proof (cases "process_temp_data cfg wmr data")
  case (Ok w)
  with assms have "process_temp_data cfg wmr data = Ok wmr'" by simp
  from process_temp_data_delivers [OF this] show ?thesis by (simp add: delivers_def)
next
  case (Exited w)
  with assms have "process_temp_data cfg wmr data = Exited wmr'" by simp
  from process_temp_data_Exited [OF this] show ?thesis
    by (simp add: store_step_def store_kept_or_newer_refl)
next
  case (Blocked w)
  then show ?thesis by simp
next
  case (Fault e)
  with assms show ?thesis by simp
qed

lemma then_do_store:
  assumes "final (then_do r f) = Some w'"
    and "\<And>w. final r = Some w \<Longrightarrow> store_step wmr w"
    and "\<And>w. r = Ok w \<Longrightarrow> final (f w) = Some w' \<Longrightarrow> store_step w w'"
  shows "store_step wmr w'"
proof (cases r)
  case (Ok w)
  with assms(1) have "final (f w) = Some w'" by simp
  with Ok assms(2,3) show ?thesis by (auto intro: store_step_trans)
next
  case (Exited w)
  with assms(1,2) show ?thesis by simp
next
  case (Blocked w)
  with assms(1,2) show ?thesis by simp
next
  case (Fault e)
  with assms(1) show ?thesis by simp
qed

lemma process_historic_data_loop_store:
  "final (process_historic_data_loop cfg data n i wmr) = Some wmr' \<Longrightarrow> store_step wmr wmr'"
proof (induction cfg data n i wmr rule: process_historic_data_loop.induct)
  case (1 cfg data n i wmr)
  show ?case
  proof (cases "i < n")
    case True
    have unf: "process_historic_data_loop cfg data n i wmr =
        then_do (process_temp_data cfg wmr (drop (33 + 7 * i) data))
          (process_historic_data_loop cfg data n (Suc i))"
      using True
      by (subst process_historic_data_loop.simps) (simp add: then_do_def split: result.splits)
    show ?thesis
    proof (rule then_do_store)
      show "final (then_do (process_temp_data cfg wmr (drop (33 + 7 * i) data))
          (process_historic_data_loop cfg data n (Suc i))) = Some wmr'"
        using "1.prems" unf by simp
    next
      fix w
      assume "final (process_temp_data cfg wmr (drop (33 + 7 * i) data)) = Some w"
      then show "store_step wmr w" by (rule process_temp_data_store)
    next
      fix w
      assume "process_temp_data cfg wmr (drop (33 + 7 * i) data) = Ok w"
        and "final (process_historic_data_loop cfg data n (Suc i) w) = Some wmr'"
      then show "store_step w wmr'" using "1.IH" [OF True] by simp
    qed
  next
    case False
    with "1.prems" have "wmr' = wmr"
      by (subst (asm) process_historic_data_loop.simps) simp
    then show ?thesis by (simp add: store_step_refl)
  qed
qed

lemma store_step_log_warning: "store_step wmr w \<Longrightarrow> store_step wmr (log_warning msg w)"
  by (simp add: store_step_def log_warning_def emit_def)

lemma store_step_from_log_warning: "store_step (log_warning msg w) w' \<Longrightarrow> store_step w w'"
  by (simp add: store_step_def log_warning_def emit_def)

lemma process_historic_data_store:
  assumes "final (process_historic_data cfg wmr data) = Some wmr'"
  shows "store_step wmr wmr'"
  using assms unfolding process_historic_data_def
proof (elim then_do_store)
  fix w1 w2 w3 w4 w5
  assume "final (case byte_at data 32 of
          None \<Rightarrow> Fault OOB_read
        | Some d32 \<Rightarrow>
            let ext_sensor_count = nat d32;
                wmr = (if ext_sensor_count > WMR200_MAX_TEMP_SENSORS cfg
                       then log_warning
                         ''process_historic_data: too many external sensors, skipping extraneous sensors''
                         w5
                       else w5);
                ext_sensor_count = min ext_sensor_count (WMR200_MAX_TEMP_SENSORS cfg)
            in process_historic_data_loop cfg data ext_sensor_count 0 wmr) = Some wmr'"
  then show "store_step w5 wmr'"
    by (cases "byte_at data 32")
       (auto simp: Let_def split: if_splits
             dest!: process_historic_data_loop_store store_step_from_log_warning)
qed (erule process_rain_data_store process_wind_data_store process_uvi_data_store
       process_baro_data_store process_temp_data_store)+

lemma dispatch_packet_store:
  assumes "final (dispatch_packet cfg wmr) = Some wmr'"
  shows "store_step wmr wmr'"
proof -
  have other: "store_step wmr (log_warning ''Ignoring unknown packet 0x%02X'' wmr)"
    by (rule store_step_log_warning) (rule store_step_refl)
  show ?thesis
    using assms other
    by (auto simp: dispatch_packet_def split: if_splits
          dest: process_historic_data_store process_wind_data_store process_rain_data_store
            process_uvi_data_store process_baro_data_store process_temp_data_store
            process_status_data_store)
qed

lemma emit_meta_packet_latest:
  "latest (emit_meta_packet wmr) =
     (latest wmr)\<lparr>latest_meta :=
        \<lparr>time = clock wmr (Suc (ticks wmr)),
         payload = WMR_META ((meta wmr)\<lparr>uptime := clock wmr (ticks wmr) - conn_since wmr\<rparr>)\<rparr>\<rparr>"
  by (simp add: emit_meta_packet_def time_NULL_def log_debug_def emit_def invoke_handlers_def
        Let_def)

text \<open>
  \<^bold>\<open>Claim C4\<close> says that every operation that writes the store, the emission of
  the connection data by the heartbeat included, overwrites a slot only when the
  incoming reading is not older than the stored one. That fails for the heartbeat:
  \<^verbatim>\<open>emit_meta_packet\<close> assigns \<^verbatim>\<open>wmr->latest.meta\<close> without comparing anything.
  With a wall clock that was set back between two heartbeats, the second emission
  replaces the reading of time 100 by one of time 50.
\<close>

theorem meta_slot_overwritten_by_older_reading:
  "time (latest_meta (latest (emit_meta_packet example_wmr_clock_set_back))) = 100 \<and>
   time (latest_meta (latest (emit_meta_packet (emit_meta_packet example_wmr_clock_set_back)))) = 50 \<and>
   latest_meta (latest (emit_meta_packet (emit_meta_packet example_wmr_clock_set_back))) \<noteq>
     latest_meta (latest (emit_meta_packet example_wmr_clock_set_back)) \<and>
   \<not> kept_or_newer
       (latest_meta (latest (emit_meta_packet example_wmr_clock_set_back)))
       (latest_meta (latest (emit_meta_packet (emit_meta_packet example_wmr_clock_set_back))))"
  by (simp add: emit_meta_packet_def time_NULL_def log_debug_def emit_def invoke_handlers_def
        Let_def example_wmr_clock_set_back_def example_clock_set_back_def example_wmr_simps
        kept_or_newer_def)

text \<open>
  \<^bold>\<open>Claim C4, amended.\<close> Whatever packet is dispatched, and whether the decoder
  returns or ends the process, afterwards every slot of the store is as it was or holds
  a reading that is not older than the one it held, and the slot of the connection data
  is untouched: every decoder writes through \<^verbatim>\<open>update_if_newer\<close>. The heartbeat's
  \<^verbatim>\<open>emit_meta_packet\<close> leaves the other slots alone and overwrites the slot of the
  connection data unconditionally, with a reading whose time is the second value it
  gets from \<^verbatim>\<open>time(NULL)\<close>.
\<close>

theorem decoders_keep_or_renew_slots_meta_overwritten:
  "(\<forall>wmr'. final (dispatch_packet cfg wmr) = Some wmr' \<longrightarrow>
      store_kept_or_newer (latest wmr) (latest wmr') \<and>
      latest_meta (latest wmr') = latest_meta (latest wmr)) \<and>
   latest (emit_meta_packet wmr) =
     (latest wmr)\<lparr>latest_meta :=
        \<lparr>time = clock wmr (Suc (ticks wmr)),
         payload = WMR_META ((meta wmr)\<lparr>uptime := clock wmr (ticks wmr) - conn_since wmr\<rparr>)\<rparr>\<rparr>"
  using dispatch_packet_store [of cfg wmr] emit_meta_packet_latest [of wmr]
  by (simp add: store_step_def)

text \<open>
  The wind packet of above, dispatched on the example connection, and a heartbeat
  emission on the example connection.
\<close>

theorem decoders_keep_or_renew_slots_meta_overwritten_witness:
  "(\<exists>wmr'. final (dispatch_packet example_config
        ((example_wmr [])\<lparr>packet_type := 0xD3, packet :=
           [0xD3, 16, 30, 12, 15, 6, 20, 0x00, 0x0C, 0x64, 0x03, 0x02, 0x14, 0x00, 0xBF, 0x01]\<rparr>))
      = Some wmr' \<and>
      store_kept_or_newer (latest (example_wmr [])) (latest wmr') \<and>
      time (latest_wind (latest wmr')) = 3874307400 \<and>
      latest_meta (latest wmr') = zero_reading) \<and>
   time (latest_meta (latest (emit_meta_packet (example_wmr [])))) = 1000"
proof -
  let ?w = "(example_wmr [])\<lparr>packet_type := 0xD3, packet :=
           [0xD3, 16, 30, 12, 15, 6, 20, 0x00, 0x0C, 0x64, 0x03, 0x02, 0x14, 0x00, 0xBF, 0x01]\<rparr>"
  have run: "\<exists>wmr'. final (dispatch_packet example_config ?w) = Some wmr' \<and>
      time (latest_wind (latest wmr')) = 3874307400"
    by (simp add: dispatch_packet_def example_config_def HISTORIC_DATA_def example_wmr_simps
          process_wind_data_def byte_at_def get_reading_time_from_packet_def table_get_def
          LOW_def HIGH_def Let_def invoke_handlers_def update_if_newer_def zero_reading_def
          WIND_DIR_STRING_def)
  then obtain wmr' where w: "final (dispatch_packet example_config ?w) = Some wmr'"
    and t: "time (latest_wind (latest wmr')) = 3874307400"
    by blast
  from decoders_keep_or_renew_slots_meta_overwritten [of example_config ?w] w
  have "store_kept_or_newer (latest ?w) (latest wmr')"
    and "latest_meta (latest wmr') = latest_meta (latest ?w)"
    by blast+
  then have "store_kept_or_newer (latest (example_wmr [])) (latest wmr')"
    and "latest_meta (latest wmr') = zero_reading"
    by (simp_all add: example_wmr_simps)
  moreover have "time (latest_meta (latest (emit_meta_packet (example_wmr [])))) = 1000"
    using decoders_keep_or_renew_slots_meta_overwritten [of example_config "example_wmr []"]
    by (simp add: example_wmr_simps)
  ultimately show ?thesis using w t by blast
qed

subsection \<open>The length byte and the packet types\<close>

lemma read_byte_Ok:
  assumes "read_byte cfg wmr = Ok (b, wmr')"
  shows "packet wmr' = packet wmr"
    and "filter is_malloc (trace wmr') = filter is_malloc (trace wmr)"
    and "num_bytes (meta wmr') = uint_inc (num_bytes (meta wmr))"
    and "latest wmr' = latest wmr"
    and "packet_type wmr' = packet_type wmr"
  using assms
  by (auto simp: read_byte_def then_do_def Let_def log_warning_def emit_def
        split: if_splits list.splits option.splits)

text \<open>
  \<^bold>\<open>Claim C1.\<close> Let the type byte not be one of the two types that are acted on at
  once, so that \<^verbatim>\<open>mainloop\<close> reads a length byte \<open>L\<close>. If \<open>L\<close> is in the range
  \<open>0xD0 .. 0xDF\<close>, the iteration goes on exactly as an iteration entered at the label
  \<^verbatim>\<open>act_on_packet_type\<close> with \<open>L\<close> as the packet type, and on the way there no
  buffer was allocated, the packet buffer is the one of before and one byte, \<open>L\<close>
  itself, was read. Otherwise the iteration goes on with \<open>L\<close> as \<^verbatim>\<open>packet_len\<close>:
  allocating \<open>L\<close> bytes, reading the payload, verifying and dispatching.
\<close>

theorem length_byte_in_marker_range_is_type:
  assumes "packet_type wmr \<noteq> HISTORIC_DATA_NOTIF" and "packet_type wmr \<noteq> LOGGER_DATA_ERASE"
  shows "\<forall>L wmr1.
           read_byte cfg
             (if packet_type wmr = COMMUNICATION_STOP
              then log_debug ''Ignoring COMMUNICATION_STOP packet'' wmr else wmr) = Ok (L, wmr1) \<longrightarrow>
           (0xD0 \<le> unat L \<and> unat L \<le> 0xDF \<longrightarrow>
              act_on_packet_type cfg wmr =
                act_on_packet_type cfg (wmr1\<lparr>packet_len := unat L, packet_type := L\<rparr>) \<and>
              packet wmr1 = packet wmr \<and>
              filter is_malloc (trace wmr1) = filter is_malloc (trace wmr) \<and>
              num_bytes (meta wmr1) = uint_inc (num_bytes (meta wmr))) \<and>
           (\<not> (0xD0 \<le> unat L \<and> unat L \<le> 0xDF) \<longrightarrow>
              act_on_packet_type cfg wmr = mainloop_packet cfg (wmr1\<lparr>packet_len := unat L\<rparr>))"
proof (intro allI impI conjI)
  fix L wmr1
  let ?w = "if packet_type wmr = COMMUNICATION_STOP
              then log_debug ''Ignoring COMMUNICATION_STOP packet'' wmr else wmr"
  assume rd: "read_byte cfg ?w = Ok (L, wmr1)"
  have same: "packet ?w = packet wmr" "filter is_malloc (trace ?w) = filter is_malloc (trace wmr)"
    "num_bytes (meta ?w) = num_bytes (meta wmr)"
    by (simp_all add: log_debug_def emit_def)
  {
    assume "0xD0 \<le> unat L \<and> unat L \<le> 0xDF"
    then show "act_on_packet_type cfg wmr =
        act_on_packet_type cfg (wmr1\<lparr>packet_len := unat L, packet_type := L\<rparr>)"
      using assms rd by (subst act_on_packet_type.simps) simp
    show "packet wmr1 = packet wmr"
      using read_byte_Ok(1) [OF rd] same by simp
    show "filter is_malloc (trace wmr1) = filter is_malloc (trace wmr)"
      using read_byte_Ok(2) [OF rd] same by simp
    show "num_bytes (meta wmr1) = uint_inc (num_bytes (meta wmr))"
      using read_byte_Ok(3) [OF rd] same by simp
  }
  {
    assume "\<not> (0xD0 \<le> unat L \<and> unat L \<le> 0xDF)"
    then show "act_on_packet_type cfg wmr = mainloop_packet cfg (wmr1\<lparr>packet_len := unat L\<rparr>)"
      using assms rd by (subst act_on_packet_type.simps) auto
  }
qed


text \<open>
  Two runs on the example connection. After the type \<open>0xD3\<close> the byte \<open>0xD1\<close>
  arrives where the length would be: it is taken for the type
  \<^verbatim>\<open>HISTORIC_DATA_NOTIF\<close>, the request for the historic data is sent and nothing is
  allocated. After the type \<open>0xD5\<close> the byte 10 arrives: a packet of 10 bytes is
  allocated, read from two frames, verified and decoded.
\<close>

theorem length_byte_in_marker_range_is_type_witness:
  "(\<exists>wmr'. act_on_packet_type example_config
        ((example_wmr [(8, [1, 0xD1, 0, 0, 0, 0, 0, 0])])\<lparr>packet_type := 0xD3\<rparr>) = Ok wmr' \<and>
      packet_type wmr' = HISTORIC_DATA_NOTIF \<and>
      written (dev wmr') = [[0x20, 0, 8, 1, 0, 0, 0, 0], [0x01, 0xDA, 0, 0, 0, 0, 0, 0]] \<and>
      filter is_malloc (trace wmr') = [] \<and> packet wmr' = [] \<and>
      num_bytes (meta wmr') = 1) \<and>
   (\<exists>wmr'. act_on_packet_type example_config
        ((example_wmr [(8, [7, 10, 30, 12, 15, 6, 20, 5]), (8, [2, 0x37, 0x01, 0, 0, 0, 0, 0])])
           \<lparr>packet_type := 0xD5\<rparr>) = Ok wmr' \<and>
      packet_len wmr' = 10 \<and>
      packet wmr' = [0xD5, 10, 30, 12, 15, 6, 20, 5, 0x37, 0x01] \<and>
      filter is_malloc (trace wmr') = [Malloc 10] \<and>
      payload (latest_uvi (latest wmr')) = WMR_UVI \<lparr>index = 5\<rparr>)"
proof (rule conjI)
  show "\<exists>wmr'. act_on_packet_type example_config
        ((example_wmr [(8, [1, 0xD1, 0, 0, 0, 0, 0, 0])])\<lparr>packet_type := 0xD3\<rparr>) = Ok wmr' \<and>
      packet_type wmr' = HISTORIC_DATA_NOTIF \<and>
      written (dev wmr') = [[0x20, 0, 8, 1, 0, 0, 0, 0], [0x01, 0xDA, 0, 0, 0, 0, 0, 0]] \<and>
      filter is_malloc (trace wmr') = [] \<and> packet wmr' = [] \<and>
      num_bytes (meta wmr') = 1"
    using length_byte_in_marker_range_is_type [of
        "(example_wmr [(8, [1, 0xD1, 0, 0, 0, 0, 0, 0])])\<lparr>packet_type := 0xD3\<rparr>" example_config]
    by (simp add: eval_read_byte HISTORIC_DATA_NOTIF_def LOGGER_DATA_ERASE_def
          COMMUNICATION_STOP_def REQUEST_HISTORIC_DATA_def replicate_bytes act_on_packet_type.simps
          send_cmd_frame_def)
  show "\<exists>wmr'. act_on_packet_type example_config
        ((example_wmr [(8, [7, 10, 30, 12, 15, 6, 20, 5]), (8, [2, 0x37, 0x01, 0, 0, 0, 0, 0])])
           \<lparr>packet_type := 0xD5\<rparr>) = Ok wmr' \<and>
      packet_len wmr' = 10 \<and>
      packet wmr' = [0xD5, 10, 30, 12, 15, 6, 20, 5, 0x37, 0x01] \<and>
      filter is_malloc (trace wmr') = [Malloc 10] \<and>
      payload (latest_uvi (latest wmr')) = WMR_UVI \<lparr>index = 5\<rparr>"
    using length_byte_in_marker_range_is_type [of
        "(example_wmr [(8, [7, 10, 30, 12, 15, 6, 20, 5]), (8, [2, 0x37, 0x01, 0, 0, 0, 0, 0])])
           \<lparr>packet_type := 0xD5\<rparr>" example_config]
    by (simp add: eval_read_byte HISTORIC_DATA_NOTIF_def LOGGER_DATA_ERASE_def
          COMMUNICATION_STOP_def HISTORIC_DATA_def replicate_bytes
          mainloop_packet_def mainloop_read_payload.simps
          verify_packet_def verify_packet_loop.simps uint_add_def UINT_MINUS_ONE_def
          time_NULL_def dispatch_packet_def process_uvi_data_def
          get_reading_time_from_packet_def LOW_def invoke_handlers_def update_if_newer_def
          zero_reading_def)
qed

end
